theory Spec2Isabelle
  imports Complex_Main "HOL-Library.Word"
begin

section \<open>JavaScript values\<close>

text \<open>
  A \<open>Uint8Array\<close> is a list of bytes, a JavaScript string a list of UTF-16 code units.
  Errors thrown by the platform are values of \<open>js_error\<close>; code that can throw returns
  \<open>js_error + 'a\<close> with \<open>Inl\<close> for the exception.
\<close>

type_synonym byte = "8 word"
type_synonym code_unit = "16 word"
type_synonym js_string = "code_unit list"

datatype js_error =
    RangeError | TypeError | SyntaxError | InvalidCharacterError | NotSupportedError
  | NetworkError | NotAllowedError

definition str :: "string \<Rightarrow> js_string" where
  "str s = map (\<lambda>c. of_nat (of_char c)) s"

section \<open>The WAV container writer (constants.ts, convertPcmToWavBlob)\<close>

text \<open>
  A \<open>DataView\<close> over a fresh \<open>ArrayBuffer\<close> is the list of its bytes. Every setter throws
  a \<open>RangeError\<close> when the write would leave the buffer; once a statement has thrown, the
  statements after it do not run, so a view that is already \<open>Inl\<close> stays as it is.
  The setters take the low bits of the number they are given (ToUint8, ToUint16, ToUint32)
  and, called with \<open>littleEndian = true\<close>, store the low byte first.
\<close>

type_synonym data_view = "js_error + byte list"

definition setUint8 :: "nat \<Rightarrow> nat \<Rightarrow> data_view \<Rightarrow> data_view" where
  "setUint8 byteOffset v view =
     (case view of
        Inl e \<Rightarrow> Inl e
      | Inr bs \<Rightarrow>
          if byteOffset + 1 \<le> length bs then Inr (bs[byteOffset := of_nat v])
          else Inl RangeError)"

definition setUint16 :: "nat \<Rightarrow> nat \<Rightarrow> data_view \<Rightarrow> data_view" where
  "setUint16 byteOffset v view =
     (case view of
        Inl e \<Rightarrow> Inl e
      | Inr bs \<Rightarrow>
          if byteOffset + 2 \<le> length bs
          then Inr (bs[byteOffset := of_nat v, byteOffset + 1 := of_nat (v div 256)])
          else Inl RangeError)"

definition setUint32 :: "nat \<Rightarrow> nat \<Rightarrow> data_view \<Rightarrow> data_view" where
  "setUint32 byteOffset v view =
     (case view of
        Inl e \<Rightarrow> Inl e
      | Inr bs \<Rightarrow>
          if byteOffset + 4 \<le> length bs
          then Inr (bs[byteOffset := of_nat v,
                       byteOffset + 1 := of_nat (v div 256),
                       byteOffset + 2 := of_nat (v div 65536),
                       byteOffset + 3 := of_nat (v div 16777216)])
          else Inl RangeError)"

text \<open>\<open>writeString\<close>: one \<open>setUint8\<close> per code unit of the string, in index order.\<close>

definition writeString :: "nat \<Rightarrow> js_string \<Rightarrow> data_view \<Rightarrow> data_view" where
  "writeString offset s view =
     fold (\<lambda>i. setUint8 (offset + i) (unat (s ! i))) [0..<length s] view"

record blob =
  blob_bytes :: "byte list"
  blob_type :: js_string

text \<open>
  \<open>convertPcmToWavBlob\<close>. The source advances a local \<open>offset\<close> after every write; the
  offsets below are the values it holds at each statement (0, 4, 8, 12, 16, 20, 22, 24, 28,
  32, 34, 36, 40 and finally 44). \<open>sampleRate\<close> and \<open>numChannels\<close> are taken as natural
  numbers. The last loop copies the payload byte by byte behind the header.
\<close>

definition convertPcmToWavBlob :: "byte list \<Rightarrow> nat \<Rightarrow> nat \<Rightarrow> js_error + blob" where
  "convertPcmToWavBlob pcmBytes sampleRate numChannels =
     (let bitsPerSample = 16;
          headerLength = 44;
          dataLength = length pcmBytes;
          fileLength = dataLength + headerLength - 8;
          view0 = Inr (replicate (headerLength + dataLength) 0);
          view1 = writeString 0 (str ''RIFF'') view0;
          view2 = setUint32 4 fileLength view1;
          view3 = writeString 8 (str ''WAVE'') view2;
          view4 = writeString 12 (str ''fmt '') view3;
          view5 = setUint32 16 16 view4;
          view6 = setUint16 20 1 view5;
          view7 = setUint16 22 numChannels view6;
          view8 = setUint32 24 sampleRate view7;
          view9 = setUint32 28 (sampleRate * numChannels * (bitsPerSample div 8)) view8;
          view10 = setUint16 32 (numChannels * (bitsPerSample div 8)) view9;
          view11 = setUint16 34 bitsPerSample view10;
          view12 = writeString 36 (str ''data'') view11;
          view13 = setUint32 40 dataLength view12;
          view14 = fold (\<lambda>i. setUint8 (44 + i) (unat (pcmBytes ! i))) [0..<dataLength] view13
      in case view14 of
           Inl e \<Rightarrow> Inl e
         | Inr bs \<Rightarrow> Inr \<lparr>blob_bytes = bs, blob_type = str ''audio/wav''\<rparr>)"

text \<open>Reading a header field back, as \<open>DataView.getUint16/getUint32(offset, true)\<close> do.\<close>

definition getUint16 :: "nat \<Rightarrow> byte list \<Rightarrow> nat" where
  "getUint16 byteOffset bs = unat (bs ! byteOffset) + 256 * unat (bs ! (byteOffset + 1))"

definition getUint32 :: "nat \<Rightarrow> byte list \<Rightarrow> nat" where
  "getUint32 byteOffset bs =
     unat (bs ! byteOffset) + 256 * unat (bs ! (byteOffset + 1))
     + 65536 * unat (bs ! (byteOffset + 2)) + 16777216 * unat (bs ! (byteOffset + 3))"

section \<open>JavaScript numbers and typed arrays\<close>

text \<open>
  A JavaScript number is a finite value, an infinity or NaN. The finite values are reals:
  every arithmetic step of the codec (a single-precision sample times \<open>2^15\<close>, a 16-bit
  integer divided by \<open>2^15\<close>) is exact in double precision, and the quotient is again a
  single-precision value, so no rounding is lost by the model. The clock values of the
  playback scheduler are reals too; there the rounding of double addition is not modelled.
\<close>

datatype number = Finite real | PosInfinity | NegInfinity | NaN

text \<open>\<open>data[i] * 32768\<close>.\<close>

fun times_32768 :: "number \<Rightarrow> number" where
  "times_32768 (Finite x) = Finite (x * 32768)"
| "times_32768 PosInfinity = PosInfinity"
| "times_32768 NegInfinity = NegInfinity"
| "times_32768 NaN = NaN"

text \<open>
  Storing a number into an \<open>Int16Array\<close> element applies ToInt16: a value that is not finite
  becomes 0, a finite one is truncated towards zero and reduced modulo \<open>2^16\<close>.
\<close>

definition js_truncate :: "real \<Rightarrow> int" where
  "js_truncate x = (if x < 0 then \<lceil>x\<rceil> else \<lfloor>x\<rfloor>)"

fun ToInt16 :: "number \<Rightarrow> 16 word" where
  "ToInt16 (Finite x) = word_of_int (js_truncate x)"
| "ToInt16 PosInfinity = 0"
| "ToInt16 NegInfinity = 0"
| "ToInt16 NaN = 0"

text \<open>
  \<open>new Uint8Array(int16.buffer)\<close> and \<open>new Int16Array(data.buffer)\<close> view the same memory;
  on the little-endian platforms the code runs on, an element is its low byte followed by its
  high byte. The \<open>Int16Array\<close> constructor throws a \<open>RangeError\<close> when the byte length of
  the buffer is odd.
\<close>

definition int16_bytes :: "16 word \<Rightarrow> byte list" where
  "int16_bytes w = [of_nat (unat w), of_nat (unat w div 256)]"

definition Uint8Array_of_Int16Array :: "16 word list \<Rightarrow> byte list" where
  "Uint8Array_of_Int16Array ws = concat (map int16_bytes ws)"

fun int16_elements :: "byte list \<Rightarrow> 16 word list" where
  "int16_elements (lo # hi # bs) = of_nat (unat lo + 256 * unat hi) # int16_elements bs"
| "int16_elements bs = []"

definition Int16Array_of_buffer :: "byte list \<Rightarrow> js_error + 16 word list" where
  "Int16Array_of_buffer bs =
     (if odd (length bs) then Inl RangeError else Inr (int16_elements bs))"

section \<open>\<open>btoa\<close> and \<open>atob\<close>\<close>

text \<open>
  The two browser functions, after the HTML standard. \<open>btoa\<close> throws an
  \<open>InvalidCharacterError\<close> when a code unit of its argument is above 255 and otherwise
  encodes the code units, as bytes, in base64 with padding. \<open>atob\<close> is the forgiving
  decoder: it removes ASCII whitespace, removes one or two trailing \<open>=\<close> when the length is a
  multiple of 4, fails when the length is then 1 modulo 4 or a character is outside the
  alphabet, and decodes the rest 6 bits at a time, dropping the bits of an incomplete byte.
\<close>

definition b64_char :: "nat \<Rightarrow> code_unit" where
  "b64_char i =
     of_nat (if i < 26 then 65 + i else if i < 52 then 71 + i else if i < 62 then i - 4
             else if i = 62 then 43 else 47)"

definition b64_index :: "code_unit \<Rightarrow> nat option" where
  "b64_index c =
     (let n = unat c in
      if 65 \<le> n \<and> n \<le> 90 then Some (n - 65)
      else if 97 \<le> n \<and> n \<le> 122 then Some (n - 71)
      else if 48 \<le> n \<and> n \<le> 57 then Some (n + 4)
      else if n = 43 then Some 62
      else if n = 47 then Some 63
      else None)"

fun b64_encode :: "nat list \<Rightarrow> js_string" where
  "b64_encode [] = []"
| "b64_encode [a] = [b64_char (a div 4), b64_char (a mod 4 * 16), 61, 61]"
| "b64_encode [a, b] =
     [b64_char (a div 4), b64_char (a mod 4 * 16 + b div 16), b64_char (b mod 16 * 4), 61]"
| "b64_encode (a # b # c # bs) =
     b64_char (a div 4) # b64_char (a mod 4 * 16 + b div 16)
     # b64_char (b mod 16 * 4 + c div 64) # b64_char (c mod 64) # b64_encode bs"

definition btoa :: "js_string \<Rightarrow> js_error + js_string" where
  "btoa s =
     (if list_ex (\<lambda>c. 255 < unat c) s then Inl InvalidCharacterError
      else Inr (b64_encode (map unat s)))"

definition ascii_whitespace :: "code_unit \<Rightarrow> bool" where
  "ascii_whitespace c = (unat c = 9 \<or> unat c = 10 \<or> unat c = 12 \<or> unat c = 13 \<or> unat c = 32)"

definition strip_padding :: "js_string \<Rightarrow> js_string" where
  "strip_padding s =
     (if length s mod 4 = 0 \<and> s \<noteq> [] \<and> last s = 61
      then (if butlast s \<noteq> [] \<and> last (butlast s) = 61 then butlast (butlast s) else butlast s)
      else s)"

fun b64_decode :: "nat list \<Rightarrow> nat list" where
  "b64_decode (w # x # y # z # r) =
     (w * 4 + x div 16) # (x mod 16 * 16 + y div 4) # (y mod 4 * 64 + z) # b64_decode r"
| "b64_decode [w, x, y] = [w * 4 + x div 16, x mod 16 * 16 + y div 4]"
| "b64_decode [w, x] = [w * 4 + x div 16]"
| "b64_decode r = []"

definition atob :: "js_string \<Rightarrow> js_error + js_string" where
  "atob s =
     (let d = strip_padding (filter (\<lambda>c. \<not> ascii_whitespace c) s) in
      if length d mod 4 = 1 \<or> list_ex (\<lambda>c. b64_index c = None) d then Inl InvalidCharacterError
      else Inr (map of_nat (b64_decode (map (\<lambda>c. the (b64_index c)) d))))"

section \<open>The audio framing codec (constants.ts)\<close>

definition INPUT_AUDIO_SAMPLE_RATE :: nat where
  "INPUT_AUDIO_SAMPLE_RATE = 16000"

definition OUTPUT_AUDIO_SAMPLE_RATE :: nat where
  "OUTPUT_AUDIO_SAMPLE_RATE = 24000"

definition AUDIO_NUM_CHANNELS :: nat where
  "AUDIO_NUM_CHANNELS = 1"

text \<open>
  \<open>encode\<close>: one \<open>String.fromCharCode\<close> per byte, then \<open>btoa\<close>. \<open>decode\<close>: \<open>atob\<close>, then one
  \<open>charCodeAt\<close> per code unit, stored into a \<open>Uint8Array\<close>.
\<close>

definition encode :: "byte list \<Rightarrow> js_error + js_string" where
  "encode bytes = btoa (map (\<lambda>b. of_nat (unat b)) bytes)"

definition decode :: "js_string \<Rightarrow> js_error + byte list" where
  "decode base64 =
     (case atob base64 of
        Inl e \<Rightarrow> Inl e
      | Inr binaryString \<Rightarrow> Inr (map (\<lambda>c. of_nat (unat c)) binaryString))"

text \<open>The decimal text of a natural number, as a template literal prints it.\<close>

fun decimal :: "nat \<Rightarrow> js_string" where
  "decimal n = (if n < 10 then [of_nat (48 + n)] else decimal (n div 10) @ [of_nat (48 + n mod 10)])"

declare decimal.simps [simp del]

record EncodedMediaBlob =
  blob_data :: js_string
  mimeType :: js_string

text \<open>
  \<open>createBlob\<close>: every sample is multiplied by 32768 and stored into an \<open>Int16Array\<close>; the
  bytes of that array are encoded and tagged with the input sample rate.
\<close>

definition createBlob :: "number list \<Rightarrow> js_error + EncodedMediaBlob" where
  "createBlob samples =
     (let int16 = map (\<lambda>x. ToInt16 (times_32768 x)) samples in
      case encode (Uint8Array_of_Int16Array int16) of
        Inl e \<Rightarrow> Inl e
      | Inr d \<Rightarrow>
          Inr \<lparr>blob_data = d, mimeType = str ''audio/pcm;rate='' @ decimal INPUT_AUDIO_SAMPLE_RATE\<rparr>)"

text \<open>
  An \<open>AudioBuffer\<close>, and \<open>createBuffer\<close> of the Web Audio API: a \<open>NotSupportedError\<close> when
  the channel count, the frame count or the sample rate is zero or outside the range the
  implementation supports, otherwise a buffer of silence. The ranges are those the Web Audio
  standard requires of every implementation: up to 32 channels, and sample rates from 8000
  to 96000. A browser may accept more; the statements below take their channel counts and
  rates inside these ranges, where every implementation accepts them. The frame count is
  converted to an unsigned integer by truncation; buffer sizes are below \<open>2^32\<close>, where that
  conversion changes nothing else, and an upper limit of the frame count is not modelled.
\<close>

record AudioBuffer =
  numberOfChannels :: nat
  buffer_length :: nat
  buffer_sampleRate :: nat
  channelData :: "number list list"

definition duration :: "AudioBuffer \<Rightarrow> real" where
  "duration b = real (buffer_length b) / real (buffer_sampleRate b)"

definition createBuffer :: "nat \<Rightarrow> nat \<Rightarrow> nat \<Rightarrow> js_error + AudioBuffer" where
  "createBuffer nc len rate =
     (if nc = 0 \<or> 32 < nc \<or> len = 0 \<or> rate < 8000 \<or> 96000 < rate then Inl NotSupportedError
      else Inr \<lparr>numberOfChannels = nc, buffer_length = len, buffer_sampleRate = rate,
                channelData = replicate nc (replicate len (Finite 0))\<rparr>)"

text \<open>
  Reading a typed array out of range gives \<open>undefined\<close>, and \<open>undefined / 32768.0\<close> is NaN;
  writing out of range does nothing.
\<close>

definition sample_at :: "16 word list \<Rightarrow> nat \<Rightarrow> number" where
  "sample_at dataInt16 k =
     (if k < length dataInt16 then Finite (real_of_int (sint (dataInt16 ! k)) / 32768) else NaN)"

definition store_at :: "number list \<Rightarrow> nat \<Rightarrow> number \<Rightarrow> number list" where
  "store_at cd i v = (if i < length cd then cd[i := v] else cd)"

text \<open>
  \<open>decodeAudioData\<close>. \<open>frameCount\<close> is the quotient \<open>dataInt16.length / numChannels\<close>, which
  need not be whole: \<open>createBuffer\<close> receives its integer part, and the inner loop runs while
  \<open>i < frameCount\<close>, that is for \<open>i\<close> below the quotient rounded up. With \<open>numChannels = 0\<close>
  the quotient is not finite and \<open>createBuffer\<close> throws. The \<open>AudioContext\<close> is used for
  \<open>createBuffer\<close> only.
\<close>

definition decodeAudioData :: "byte list \<Rightarrow> nat \<Rightarrow> nat \<Rightarrow> js_error + AudioBuffer" where
  "decodeAudioData data_bytes rate numChannels =
     (case Int16Array_of_buffer data_bytes of
        Inl e \<Rightarrow> Inl e
      | Inr dataInt16 \<Rightarrow>
          (case createBuffer numChannels (length dataInt16 div numChannels) rate of
             Inl e \<Rightarrow> Inl e
           | Inr buffer \<Rightarrow>
               Inr (fold
                 (\<lambda>channel buf.
                    buf\<lparr>channelData := (channelData buf)[channel :=
                      fold (\<lambda>i cd. store_at cd i (sample_at dataInt16 (i * numChannels + channel)))
                        [0..<(length dataInt16 + numChannels - 1) div numChannels]
                        (channelData buf ! channel)]\<rparr>)
                 [0..<numChannels] buffer)))"

section \<open>The live chat component (components/LiveChat.tsx)\<close>

subsection \<open>Messages and state\<close>

datatype ChatRole = USER | MODEL

record ChatMessage =
  role :: ChatRole
  content :: js_string
  timestamp :: nat

text \<open>
  The part of a \<open>LiveServerMessage\<close> that the handler reads. Every optional property is an
  option; a missing \<open>turnComplete\<close> or \<open>interrupted\<close> is \<open>False\<close>.
\<close>

record Transcription =
  transcription_text :: "js_string option"

record InlineData =
  inline_data :: "js_string option"

record Part =
  inlineData :: "InlineData option"

record Content =
  parts :: "Part list option"

record LiveServerContent =
  modelTurn :: "Content option"
  outputTranscription :: "Transcription option"
  inputTranscription :: "Transcription option"
  turnComplete :: bool
  interrupted :: bool

record LiveServerMessage =
  serverContent :: "LiveServerContent option"

text \<open>
  The calls the component makes on platform objects, in the order it makes them. Objects
  (streams, nodes, contexts, sessions, buffer sources) are named by natural numbers.
\<close>

datatype effect =
    TrackStop nat
  | Disconnect nat
  | ContextClose nat
  | SessionClose nat
  | SourceStart nat real
  | SourceStop nat
  | ConsoleError

text \<open>
  The component's React state (the first six fields), its refs, the number of buffer sources
  created so far (the next source is named by it) and the log of effects.
  \<open>playbackSourcesRef\<close> is a JavaScript \<open>Set\<close>: its elements in insertion order.
\<close>

record LiveChat =
  isRecording :: bool
  chatMessages :: "ChatMessage list"
  currentInputTranscription :: js_string
  currentOutputTranscription :: js_string
  isLoading :: bool
  error_shown :: "js_error option"
  audioContextRef :: "nat option"
  outputAudioContextRef :: "nat option"
  scriptProcessorRef :: "nat option"
  mediaStreamSourceRef :: "nat option"
  liveSessionRef :: "nat option"
  mediaStreamRef :: "nat option"
  nextStartTimeRef :: real
  playbackSourcesRef :: "nat list"
  sourcesCreated :: nat
  effects :: "effect list"

definition initial_LiveChat :: LiveChat where
  "initial_LiveChat =
     \<lparr>isRecording = False, chatMessages = [], currentInputTranscription = [],
      currentOutputTranscription = [], isLoading = False, error_shown = None,
      audioContextRef = None, outputAudioContextRef = None, scriptProcessorRef = None,
      mediaStreamSourceRef = None, liveSessionRef = None, mediaStreamRef = None,
      nextStartTimeRef = 0, playbackSourcesRef = [], sourcesCreated = 0, effects = []\<rparr>"

definition set_add :: "nat \<Rightarrow> nat list \<Rightarrow> nat list" where
  "set_add x xs = (if x \<in> set xs then xs else xs @ [x])"

definition addChatMessage :: "ChatMessage \<Rightarrow> LiveChat \<Rightarrow> LiveChat" where
  "addChatMessage message s = s\<lparr>chatMessages := chatMessages s @ [message]\<rparr>"

definition clearCurrentTranscriptions :: "LiveChat \<Rightarrow> LiveChat" where
  "clearCurrentTranscriptions s =
     s\<lparr>currentInputTranscription := [], currentOutputTranscription := []\<rparr>"

text \<open>
  \<open>String.prototype.trim\<close> removes the white space and line terminator code units of
  ECMAScript from both ends.
\<close>

definition js_whitespace :: "code_unit \<Rightarrow> bool" where
  "js_whitespace c =
     (unat c \<in> {9, 10, 11, 12, 13, 32, 160, 5760, 8232, 8233, 8239, 8287, 12288, 65279}
      \<or> (8192 \<le> unat c \<and> unat c \<le> 8202))"

definition trim :: "js_string \<Rightarrow> js_string" where
  "trim s = rev (dropWhile js_whitespace (rev (dropWhile js_whitespace s)))"

subsection \<open>\<open>handleLiveMessage\<close>\<close>

text \<open>
  The callback is created by \<open>useCallback\<close> in a render and reads
  \<open>currentInputTranscription\<close> and \<open>currentOutputTranscription\<close> as that render bound them:
  they are values captured by the closure, not the state at the time of the call. The state
  itself is only changed through updater functions (\<open>prev => ...\<close>), which see the current
  value. \<open>captured\<close> holds the two values of the closure.
\<close>

record captured =
  captured_input :: js_string
  captured_output :: js_string

text \<open>
  What a call reads from its environment: the output context's \<open>currentTime\<close> and the wall
  clock at the two \<open>new Date()\<close>.
\<close>

record handler_env =
  currentTime :: real
  userDate :: nat
  modelDate :: nat

text \<open>
  \<open>message.serverContent?.modelTurn?.parts[0]?.inlineData?.data\<close>: the chain yields
  \<open>undefined\<close> where a link before a \<open>?.\<close> is missing, and throws a \<open>TypeError\<close> at
  \<open>parts[0]\<close> when \<open>modelTurn\<close> is there without \<open>parts\<close>.
\<close>

definition message_audio :: "LiveServerMessage \<Rightarrow> js_error + js_string option" where
  "message_audio message =
     (case serverContent message of
        None \<Rightarrow> Inr None
      | Some sc \<Rightarrow>
          (case modelTurn sc of
             None \<Rightarrow> Inr None
           | Some mt \<Rightarrow>
               (case parts mt of
                  None \<Rightarrow> Inl TypeError
                | Some ps \<Rightarrow>
                    (case ps of
                       [] \<Rightarrow> Inr None
                     | p # _ \<Rightarrow>
                         (case inlineData p of
                            None \<Rightarrow> Inr None
                          | Some d \<Rightarrow> Inr (inline_data d))))))"

text \<open>
  \<open>decodeAudioData(decode(base64EncodedAudioString), outputAudioContext,
  OUTPUT_AUDIO_SAMPLE_RATE, AUDIO_NUM_CHANNELS)\<close>, the awaited expression of the \<open>try\<close>.
\<close>

definition decode_segment :: "js_string \<Rightarrow> js_error + AudioBuffer" where
  "decode_segment base64 =
     (case decode base64 of
        Inl e \<Rightarrow> Inl e
      | Inr bytes \<Rightarrow> decodeAudioData bytes OUTPUT_AUDIO_SAMPLE_RATE AUDIO_NUM_CHANNELS)"

text \<open>
  Handle audio output. The clock is raised to the output time before the \<open>try\<close>; an
  exception of the decoding is caught and logged, and nothing is scheduled.
\<close>

definition handle_audio :: "handler_env \<Rightarrow> js_string option \<Rightarrow> LiveChat \<Rightarrow> LiveChat" where
  "handle_audio env base64EncodedAudioString s =
     (case base64EncodedAudioString of
        None \<Rightarrow> s
      | Some b64 \<Rightarrow>
          if b64 \<noteq> [] \<and> outputAudioContextRef s \<noteq> None then
            (let s1 = s\<lparr>nextStartTimeRef := max (nextStartTimeRef s) (currentTime env)\<rparr> in
             case decode_segment b64 of
               Inl audioError \<Rightarrow> s1\<lparr>effects := effects s1 @ [ConsoleError]\<rparr>
             | Inr audioBuffer \<Rightarrow>
                 s1\<lparr>sourcesCreated := Suc (sourcesCreated s1),
                    effects := effects s1 @ [SourceStart (sourcesCreated s1) (nextStartTimeRef s1)],
                    nextStartTimeRef := nextStartTimeRef s1 + duration audioBuffer,
                    playbackSourcesRef := set_add (sourcesCreated s1) (playbackSourcesRef s1)\<rparr>)
          else s)"

text \<open>The \<open>ended\<close> listener of a source removes it from the set.\<close>

definition source_ended :: "nat \<Rightarrow> LiveChat \<Rightarrow> LiveChat" where
  "source_ended source s = s\<lparr>playbackSourcesRef := removeAll source (playbackSourcesRef s)\<rparr>"

text \<open>
  Handle transcription updates: the output delta wins when both are present; a delta without
  \<open>text\<close> appends the text \<open>undefined\<close>.
\<close>

definition delta_text :: "Transcription \<Rightarrow> js_string" where
  "delta_text t = (case transcription_text t of None \<Rightarrow> str ''undefined'' | Some x \<Rightarrow> x)"

definition handle_transcription :: "LiveServerMessage \<Rightarrow> LiveChat \<Rightarrow> LiveChat" where
  "handle_transcription message s =
     (case serverContent message of
        None \<Rightarrow> s
      | Some sc \<Rightarrow>
          (case outputTranscription sc of
             Some t \<Rightarrow> s\<lparr>currentOutputTranscription := currentOutputTranscription s @ delta_text t\<rparr>
           | None \<Rightarrow>
               (case inputTranscription sc of
                  Some t \<Rightarrow> s\<lparr>currentInputTranscription := currentInputTranscription s @ delta_text t\<rparr>
                | None \<Rightarrow> s)))"

text \<open>Handle turn completion, on the captured values.\<close>

definition handle_turn_complete ::
  "captured \<Rightarrow> handler_env \<Rightarrow> LiveServerMessage \<Rightarrow> LiveChat \<Rightarrow> LiveChat" where
  "handle_turn_complete cl env message s =
     (case serverContent message of
        None \<Rightarrow> s
      | Some sc \<Rightarrow>
          if turnComplete sc then
            (let s1 = (if trim (captured_input cl) \<noteq> []
                       then addChatMessage \<lparr>role = USER, content = captured_input cl,
                                            timestamp = userDate env\<rparr> s
                       else s);
                 s2 = (if trim (captured_output cl) \<noteq> []
                       then addChatMessage \<lparr>role = MODEL, content = captured_output cl,
                                            timestamp = modelDate env\<rparr> s1
                       else s1)
             in clearCurrentTranscriptions s2)
          else s)"

text \<open>Handle interruptions: every source of the set is stopped and deleted from the set.\<close>

definition stop_and_delete :: "nat \<Rightarrow> LiveChat \<Rightarrow> LiveChat" where
  "stop_and_delete source s =
     s\<lparr>effects := effects s @ [SourceStop source],
       playbackSourcesRef := removeAll source (playbackSourcesRef s)\<rparr>"

definition handle_interrupted :: "LiveServerMessage \<Rightarrow> LiveChat \<Rightarrow> LiveChat" where
  "handle_interrupted message s =
     (case serverContent message of
        None \<Rightarrow> s
      | Some sc \<Rightarrow>
          if interrupted sc then
            clearCurrentTranscriptions
              ((fold stop_and_delete (playbackSourcesRef s) s)\<lparr>nextStartTimeRef := 0\<rparr>)
          else s)"

text \<open>
  The handler: the four steps in the order of the source. A \<open>TypeError\<close> of the first
  statement rejects the handler's promise before anything was changed.
\<close>

definition handleLiveMessage ::
  "captured \<Rightarrow> handler_env \<Rightarrow> LiveServerMessage \<Rightarrow> LiveChat \<Rightarrow> js_error + LiveChat" where
  "handleLiveMessage cl env message s =
     (case message_audio message of
        Inl e \<Rightarrow> Inl e
      | Inr base64EncodedAudioString \<Rightarrow>
          Inr (handle_interrupted message
                (handle_turn_complete cl env message
                  (handle_transcription message
                    (handle_audio env base64EncodedAudioString s)))))"

subsection \<open>\<open>startRecording\<close> and \<open>stopRecording\<close>\<close>

text \<open>
  \<open>stopRecording\<close>: every ref that holds an object is released and set to \<open>null\<close>; the
  playback sources are stopped and the clock is reset where the output context is held.
\<close>

definition stopRecording :: "LiveChat \<Rightarrow> LiveChat" where
  "stopRecording s =
     (let s1 = (case mediaStreamRef s of
                  None \<Rightarrow> s
                | Some h \<Rightarrow> s\<lparr>effects := effects s @ [TrackStop h], mediaStreamRef := None\<rparr>);
          s2 = (case mediaStreamSourceRef s1 of
                  None \<Rightarrow> s1
                | Some h \<Rightarrow> s1\<lparr>effects := effects s1 @ [Disconnect h], mediaStreamSourceRef := None\<rparr>);
          s3 = (case scriptProcessorRef s2 of
                  None \<Rightarrow> s2
                | Some h \<Rightarrow> s2\<lparr>effects := effects s2 @ [Disconnect h], scriptProcessorRef := None\<rparr>);
          s4 = (case audioContextRef s3 of
                  None \<Rightarrow> s3
                | Some h \<Rightarrow> s3\<lparr>effects := effects s3 @ [ContextClose h], audioContextRef := None\<rparr>);
          s5 = (case outputAudioContextRef s4 of
                  None \<Rightarrow> s4
                | Some h \<Rightarrow>
                    s4\<lparr>effects := effects s4 @ map SourceStop (playbackSourcesRef s4) @ [ContextClose h],
                       playbackSourcesRef := [],
                       nextStartTimeRef := 0,
                       outputAudioContextRef := None\<rparr>);
          s6 = (case liveSessionRef s5 of
                  None \<Rightarrow> s5
                | Some h \<Rightarrow> s5\<lparr>effects := effects s5 @ [SessionClose h], liveSessionRef := None\<rparr>)
      in s6\<lparr>isRecording := False, isLoading := False\<rparr>)"

text \<open>
  \<open>startRecording\<close>. What the platform answers is given: the stream of \<open>getUserMedia\<close>,
  the two audio contexts, the two nodes and the session of \<open>startLiveSession\<close>, each an
  object or, where the call can fail, an exception. An exception leaves the \<open>try\<close> for the
  \<open>catch\<close>, which stops the tracks of a stream that was obtained; \<open>finally\<close> clears
  \<open>isLoading\<close>.
\<close>

record start_env =
  stream_result :: "js_error + nat"
  input_context_result :: "js_error + nat"
  output_context_result :: "js_error + nat"
  stream_source :: nat
  script_processor :: nat
  session_result :: "js_error + nat"

definition start_failed :: "js_error \<Rightarrow> LiveChat \<Rightarrow> LiveChat" where
  "start_failed err s =
     (let s1 = s\<lparr>error_shown := Some err, isRecording := False\<rparr>;
          s2 = (case mediaStreamRef s1 of
                  None \<Rightarrow> s1
                | Some h \<Rightarrow> s1\<lparr>effects := effects s1 @ [TrackStop h]\<rparr>)
      in s2\<lparr>isLoading := False\<rparr>)"

definition startRecording :: "start_env \<Rightarrow> LiveChat \<Rightarrow> LiveChat" where
  "startRecording env s =
     (let s0 = clearCurrentTranscriptions (s\<lparr>isLoading := True, error_shown := None, chatMessages := []\<rparr>) in
      case stream_result env of
        Inl err \<Rightarrow> start_failed err s0
      | Inr stream \<Rightarrow>
          (let s1 = s0\<lparr>mediaStreamRef := Some stream\<rparr> in
           case input_context_result env of
             Inl err \<Rightarrow> start_failed err s1
           | Inr ctx_in \<Rightarrow>
               (let s2 = s1\<lparr>audioContextRef := Some ctx_in\<rparr> in
                case output_context_result env of
                  Inl err \<Rightarrow> start_failed err s2
                | Inr ctx_out \<Rightarrow>
                    (let s3 = s2\<lparr>outputAudioContextRef := Some ctx_out,
                                  mediaStreamSourceRef := Some (stream_source env),
                                  scriptProcessorRef := Some (script_processor env)\<rparr> in
                     case session_result env of
                       Inl err \<Rightarrow> start_failed err s3
                     | Inr session \<Rightarrow>
                         s3\<lparr>liveSessionRef := Some session, isRecording := True, isLoading := False\<rparr>))))"

subsection \<open>The component over a sequence of events\<close>

text \<open>
  The callbacks given to \<open>startLiveSession\<close> are those of the render in which the start
  button was clicked, and the session keeps them: \<open>onmessage\<close> is the \<open>handleLiveMessage\<close>
  of that render, \<open>onclose\<close> reads the \<open>isRecording\<close> of that render. \<open>callbacks\<close> is
  \<open>None\<close> until a session was requested.
\<close>

record session_callbacks =
  onmessage :: captured
  onclose_isRecording :: bool

record component =
  chat :: LiveChat
  callbacks :: "session_callbacks option"

datatype event =
    ClickStart start_env
  | ClickStop
  | ServerMessage handler_env LiveServerMessage
  | SourceEnded nat
  | SessionError js_error
  | SessionClosed bool

definition initial_component :: component where
  "initial_component = \<lparr>chat = initial_LiveChat, callbacks = None\<rparr>"

definition session_requested :: "start_env \<Rightarrow> bool" where
  "session_requested env =
     (case stream_result env of
        Inl _ \<Rightarrow> False
      | Inr _ \<Rightarrow>
          (case input_context_result env of
             Inl _ \<Rightarrow> False
           | Inr _ \<Rightarrow> (case output_context_result env of Inl _ \<Rightarrow> False | Inr _ \<Rightarrow> True)))"

fun step :: "event \<Rightarrow> component \<Rightarrow> component" where
  "step (ClickStart env) c =
     \<lparr>chat = startRecording env (chat c),
      callbacks =
        (if session_requested env
         then Some \<lparr>onmessage = \<lparr>captured_input = currentInputTranscription (chat c),
                                    captured_output = currentOutputTranscription (chat c)\<rparr>,
                     onclose_isRecording = isRecording (chat c)\<rparr>
         else callbacks c)\<rparr>"
| "step ClickStop c = c\<lparr>chat := stopRecording (chat c)\<rparr>"
| "step (ServerMessage env message) c =
     (case callbacks c of
        None \<Rightarrow> c
      | Some cb \<Rightarrow>
          (case handleLiveMessage (onmessage cb) env message (chat c) of
             Inl e \<Rightarrow> c
           | Inr s \<Rightarrow> c\<lparr>chat := s\<rparr>))"
| "step (SourceEnded source) c = c\<lparr>chat := source_ended source (chat c)\<rparr>"
| "step (SessionError e) c =
     (case callbacks c of
        None \<Rightarrow> c
      | Some cb \<Rightarrow> c\<lparr>chat := stopRecording ((chat c)\<lparr>error_shown := Some e\<rparr>)\<rparr>)"
| "step (SessionClosed wasClean) c =
     (case callbacks c of
        None \<Rightarrow> c
      | Some cb \<Rightarrow>
          (let s1 = (if wasClean then chat c else (chat c)\<lparr>error_shown := Some NetworkError\<rparr>)
           in c\<lparr>chat := (if onclose_isRecording cb then stopRecording s1 else s1)\<rparr>))"

definition run :: "event list \<Rightarrow> component \<Rightarrow> component" where
  "run events c = fold step events c"

section \<open>Structured analysis (constants.ts, analyzeVideoTranscriptForInfo)\<close>

text \<open>
  A value returned by \<open>JSON.parse\<close>. What the remote call and the parser answer is given:
  \<open>response\<close> is the exception of \<open>getGeminiClient\<close> or \<open>generateContent\<close>, or the
  \<open>text\<close> of the response (which may be \<open>undefined\<close>); \<open>parsed\<close> is what
  \<open>JSON.parse(response.text.trim())\<close> returns or throws. The transcript, the query and the
  language only shape the prompt. With \<open>text\<close> undefined the call of \<open>trim\<close> throws inside
  the \<open>try\<close>, and the template literal prints \<open>undefined\<close>.
\<close>

datatype json =
    JNull
  | JBool bool
  | JNumber number
  | JString js_string
  | JArray "json list"
  | JObject "(js_string \<times> json) list"

definition parse_fallback :: "js_string \<Rightarrow> json" where
  "parse_fallback response_text =
     JObject [(str ''analysisText'',
               JString (str ''Failed to parse structured analysis. Raw response: '' @ response_text)),
              (str ''timeframes'', JArray [])]"

definition analyzeVideoTranscriptForInfo ::
  "js_error + js_string option \<Rightarrow> js_error + json \<Rightarrow> js_error + json" where
  "analyzeVideoTranscriptForInfo response parsed =
     (case response of
        Inl e \<Rightarrow> Inl e
      | Inr response_text \<Rightarrow>
          (case response_text of
             None \<Rightarrow> Inr (parse_fallback (str ''undefined''))
           | Some t \<Rightarrow>
               (case parsed of
                  Inl e \<Rightarrow> Inr (parse_fallback t)
                | Inr parsedResponse \<Rightarrow> Inr parsedResponse)))"

text \<open>Reading a property of a returned value: \<open>None\<close> where the value has no such property.\<close>

definition property :: "string \<Rightarrow> json \<Rightarrow> json option" where
  "property name v = (case v of JObject props \<Rightarrow> map_of props (str name) | _ \<Rightarrow> None)"

section \<open>Notions used in the statements\<close>

subsection \<open>The teardown\<close>

definition refs_released :: "LiveChat \<Rightarrow> bool" where
  "refs_released s =
     (mediaStreamRef s = None \<and> mediaStreamSourceRef s = None \<and> scriptProcessorRef s = None
      \<and> audioContextRef s = None \<and> outputAudioContextRef s = None \<and> liveSessionRef s = None)"

text \<open>
  The calls that release what the refs of a state hold, in the order of \<open>stopRecording\<close>.
\<close>

definition release_calls :: "LiveChat \<Rightarrow> effect list" where
  "release_calls s =
     (case mediaStreamRef s of None \<Rightarrow> [] | Some h \<Rightarrow> [TrackStop h])
     @ (case mediaStreamSourceRef s of None \<Rightarrow> [] | Some h \<Rightarrow> [Disconnect h])
     @ (case scriptProcessorRef s of None \<Rightarrow> [] | Some h \<Rightarrow> [Disconnect h])
     @ (case audioContextRef s of None \<Rightarrow> [] | Some h \<Rightarrow> [ContextClose h])
     @ (case outputAudioContextRef s of
          None \<Rightarrow> []
        | Some h \<Rightarrow> map SourceStop (playbackSourcesRef s) @ [ContextClose h])
     @ (case liveSessionRef s of None \<Rightarrow> [] | Some h \<Rightarrow> [SessionClose h])"

text \<open>
  The playback state is only touched while the output context is held: in every state the
  component reaches, a missing output context means an empty source set and a zero clock.
\<close>

definition ctx_inv :: "LiveChat \<Rightarrow> bool" where
  "ctx_inv s =
     (outputAudioContextRef s \<noteq> None \<or> (playbackSourcesRef s = [] \<and> nextStartTimeRef s = 0))"

subsection \<open>Messages and states of the examples\<close>

definition is_interrupted :: "LiveServerMessage \<Rightarrow> bool" where
  "is_interrupted m = (case serverContent m of None \<Rightarrow> False | Some sc \<Rightarrow> interrupted sc)"

definition is_turn_complete :: "LiveServerMessage \<Rightarrow> bool" where
  "is_turn_complete m = (case serverContent m of None \<Rightarrow> False | Some sc \<Rightarrow> turnComplete sc)"

definition audio_message :: "js_string \<Rightarrow> LiveServerMessage" where
  "audio_message b64 =
     \<lparr>serverContent = Some \<lparr>modelTurn = Some \<lparr>parts = Some [\<lparr>inlineData = Some \<lparr>inline_data = Some b64\<rparr>\<rparr>]\<rparr>,
        outputTranscription = None, inputTranscription = None, turnComplete = False,
        interrupted = False\<rparr>\<rparr>"

definition interrupted_message :: LiveServerMessage where
  "interrupted_message =
     \<lparr>serverContent = Some \<lparr>modelTurn = None, outputTranscription = None,
        inputTranscription = None, turnComplete = False, interrupted = True\<rparr>\<rparr>"

definition turn_complete_message :: LiveServerMessage where
  "turn_complete_message =
     \<lparr>serverContent = Some \<lparr>modelTurn = None, outputTranscription = None,
        inputTranscription = None, turnComplete = True, interrupted = False\<rparr>\<rparr>"

definition input_delta :: "js_string \<Rightarrow> LiveServerMessage" where
  "input_delta t =
     \<lparr>serverContent = Some \<lparr>modelTurn = None, outputTranscription = None,
        inputTranscription = Some \<lparr>transcription_text = Some t\<rparr>, turnComplete = False,
        interrupted = False\<rparr>\<rparr>"

definition output_delta :: "js_string \<Rightarrow> LiveServerMessage" where
  "output_delta t =
     \<lparr>serverContent = Some \<lparr>modelTurn = None,
        outputTranscription = Some \<lparr>transcription_text = Some t\<rparr>,
        inputTranscription = None, turnComplete = False, interrupted = False\<rparr>\<rparr>"

text \<open>The callback of a first session: both captured texts are empty.\<close>

definition first_callback :: captured where
  "first_callback = \<lparr>captured_input = [], captured_output = []\<rparr>"

definition at_time :: "real \<Rightarrow> handler_env" where
  "at_time t = \<lparr>currentTime = t, userDate = 0, modelDate = 0\<rparr>"

text \<open>
  A start in which the platform grants everything, the state right after it, and the buffer
  that the two zero bytes of \<open>AAA=\<close> decode to.
\<close>

definition granted :: start_env where
  "granted = \<lparr>stream_result = Inr 1, input_context_result = Inr 2, output_context_result = Inr 3,
     stream_source = 4, script_processor = 5, session_result = Inr 6\<rparr>"

definition recording :: LiveChat where
  "recording = chat (step (ClickStart granted) initial_component)"

definition one_frame :: AudioBuffer where
  "one_frame = \<lparr>numberOfChannels = 1, buffer_length = 1, buffer_sampleRate = 24000,
     channelData = [[Finite 0]]\<rparr>"

text \<open>A state in a turn: one source is playing and the user's words so far are \<open>hel\<close>.\<close>

definition playing :: LiveChat where
  "playing = recording\<lparr>currentInputTranscription := str ''hel'', nextStartTimeRef := 5 + 1 / 24000,
     playbackSourcesRef := [0], sourcesCreated := 1, effects := [SourceStart 0 5]\<rparr>"

subsection \<open>Byte layouts\<close>

text \<open>The bytes of an ASCII text, and the little-endian layout of a 16- and a 32-bit field.\<close>

definition ascii :: "string \<Rightarrow> byte list" where
  "ascii s = map (\<lambda>c. of_nat (of_char c)) s"

definition le16 :: "nat \<Rightarrow> byte list" where
  "le16 v = [of_nat v, of_nat (v div 256)]"

definition le32 :: "nat \<Rightarrow> byte list" where
  "le32 v = [of_nat v, of_nat (v div 256), of_nat (v div 65536), of_nat (v div 16777216)]"

text \<open>The byte layout of a RIFF/WAVE file with one 16-bit PCM \<open>data\<close> chunk.\<close>

definition wav_layout :: "byte list \<Rightarrow> nat \<Rightarrow> nat \<Rightarrow> byte list" where
  "wav_layout pcm sr nc =
     ascii ''RIFF'' @ le32 (length pcm + 36) @ ascii ''WAVE'' @ ascii ''fmt ''
     @ le32 16 @ le16 1 @ le16 nc @ le32 sr @ le32 (sr * nc * 2) @ le16 (nc * 2) @ le16 16
     @ ascii ''data'' @ le32 (length pcm) @ pcm"

subsection \<open>Base64 groups\<close>

text \<open>
  The 6-bit values that \<open>b64_encode\<close> writes for a list of bytes, and the number of
  \<open>=\<close> it appends.
\<close>

fun b64_sextets :: "nat list \<Rightarrow> nat list" where
  "b64_sextets [] = []"
| "b64_sextets [a] = [a div 4, a mod 4 * 16]"
| "b64_sextets [a, b] = [a div 4, a mod 4 * 16 + b div 16, b mod 16 * 4]"
| "b64_sextets (a # b # c # bs) =
     a div 4 # (a mod 4 * 16 + b div 16) # (b mod 16 * 4 + c div 64) # c mod 64 # b64_sextets bs"

fun b64_padding :: "nat list \<Rightarrow> nat" where
  "b64_padding [] = 0"
| "b64_padding [a] = 2"
| "b64_padding [a, b] = 1"
| "b64_padding (a # b # c # bs) = b64_padding bs"


subsection \<open>The session as the handler sees it\<close>

text \<open>The recording flag and the six refs: what a teardown would change.\<close>

definition session_handles ::
  "LiveChat \<Rightarrow> bool \<times> nat option \<times> nat option \<times> nat option \<times> nat option \<times> nat option \<times> nat option" where
  "session_handles s =
     (isRecording s, audioContextRef s, outputAudioContextRef s, scriptProcessorRef s,
      mediaStreamSourceRef s, liveSessionRef s, mediaStreamRef s)"


section \<open>Properties of the WAV writer\<close>

lemma replicate_header:
  "replicate (44 + n) (0::byte) =
     [0,0,0,0,0,0,0,0,0,0,0,0,0,0,0,0,0,0,0,0,0,0,0,0,0,0,0,0,0,0,0,0,0,0,0,0,0,0,0,0,0,0,0,0]
     @ replicate n 0"
  by (simp add: replicate_add eval_nat_numeral)

lemma list_update_Cons_numeral:
  "(x # xs)[numeral v := y] = x # xs[numeral v - 1 := y]"
  by (simp add: numeral_eq_Suc)

lemma payload_copy:
  "k \<le> length pcm \<Longrightarrow> length h = 44 \<Longrightarrow> length r = length pcm \<Longrightarrow>
   fold (\<lambda>i. setUint8 (44 + i) (unat (pcm ! i))) [0..<k] (Inr (h @ r))
     = Inr (h @ take k pcm @ drop k r)"
proof (induction k)
  case 0
  then show ?case by simp
next
  case (Suc k)
  then show ?case
    by (simp add: setUint8_def list_update_append take_Suc_conv_app_nth upd_conv_take_nth_drop
        Suc_lessD drop_Suc flip: Cons_nth_drop_Suc)
qed

lemma header_write:
  "setUint32 40 dataLength
     (writeString 36 (str ''data'')
       (setUint16 34 16
         (setUint16 32 blockAlign
           (setUint32 28 byteRate
             (setUint32 24 sampleRate
               (setUint16 22 numChannels
                 (setUint16 20 1
                   (setUint32 16 16
                     (writeString 12 (str ''fmt '')
                       (writeString 8 (str ''WAVE'')
                         (setUint32 4 fileLength
                           (writeString 0 (str ''RIFF'') (Inr (replicate (44 + n) 0)))))))))))))) =
   Inr ((ascii ''RIFF'' @ le32 fileLength @ ascii ''WAVE'' @ ascii ''fmt '' @ le32 16 @ le16 1
         @ le16 numChannels @ le32 sampleRate @ le32 byteRate @ le16 blockAlign @ le16 16
         @ ascii ''data'' @ le32 dataLength) @ replicate n 0)"
  by (simp add: writeString_def setUint8_def setUint16_def setUint32_def str_def replicate_header
      le16_def le32_def ascii_def list_update_Cons_numeral)

lemma convertPcmToWavBlob_bytes:
  "convertPcmToWavBlob pcm sr nc =
     Inr \<lparr>blob_bytes = wav_layout pcm sr nc, blob_type = str ''audio/wav''\<rparr>"
  unfolding convertPcmToWavBlob_def Let_def wav_layout_def
  apply (subst header_write)
  apply (subst payload_copy)
     apply (simp_all add: le16_def le32_def ascii_def add.commute)
  done

lemma split16: "(v::nat) mod 65536 = v mod 256 + 256 * (v div 256 mod 256)"
  using mod_mult2_eq [of v 256 256] by simp

lemma split32:
  "(v::nat) mod 4294967296
     = v mod 256 + 256 * (v div 256 mod 256) + 65536 * (v div 65536 mod 256)
       + 16777216 * (v div 16777216 mod 256)"
proof -
  have a: "v mod 4294967296 = v mod 65536 + 65536 * (v div 65536 mod 65536)"
    using mod_mult2_eq [of v 65536 65536] by simp
  have b: "v div 65536 mod 65536 = v div 65536 mod 256 + 256 * (v div 65536 div 256 mod 256)"
    by (rule split16)
  have c: "v div 65536 div 256 = v div 16777216"
    by (simp add: div_mult2_eq [symmetric])
  show ?thesis
    by (simp add: a b c split16)
qed

lemma le32_value:
  "unat (word_of_nat v :: byte) + 256 * unat (word_of_nat (v div 256) :: byte)
     + 65536 * unat (word_of_nat (v div 65536) :: byte)
     + 16777216 * unat (word_of_nat (v div 16777216) :: byte)
   = v mod 4294967296"
  by (simp add: unat_of_nat split32)

lemma le16_value:
  "unat (word_of_nat v :: byte) + 256 * unat (word_of_nat (v div 256) :: byte) = v mod 65536"
  by (simp add: unat_of_nat split16)

lemma length_le16: "length (le16 v) = 2"
  by (simp add: le16_def)

lemma length_le32: "length (le32 v) = 4"
  by (simp add: le32_def)

lemma length_ascii: "length (ascii s) = length s"
  by (simp add: ascii_def)

lemma getUint32_le32:
  "length xs = k \<Longrightarrow> getUint32 k (xs @ le32 v @ ys) = v mod 4294967296"
  by (simp add: getUint32_def nth_append le32_def le32_value)

lemma getUint16_le16:
  "length xs = k \<Longrightarrow> getUint16 k (xs @ le16 v @ ys) = v mod 65536"
  by (simp add: getUint16_def nth_append le16_def le16_value)

lemma wav_layout_fields:
  fixes pcm :: "byte list" and sr nc :: nat
  defines "bs \<equiv> wav_layout pcm sr nc"
  shows "length bs = 44 + length pcm"
    and "take 4 bs = ascii ''RIFF''"
    and "take 4 (drop 36 bs) = ascii ''data''"
    and "drop 44 bs = pcm"
    and "getUint32 4 bs = (length pcm + 36) mod 4294967296"
    and "getUint32 28 bs = (sr * nc * 2) mod 4294967296"
    and "getUint16 32 bs = (nc * 2) mod 65536"
    and "getUint32 40 bs = length pcm mod 4294967296"
proof -
  show "length bs = 44 + length pcm"
    by (simp add: bs_def wav_layout_def length_le16 length_le32 length_ascii)
  show "take 4 bs = ascii ''RIFF''"
    by (simp add: bs_def wav_layout_def length_ascii)
  show "take 4 (drop 36 bs) = ascii ''data''"
    by (simp add: bs_def wav_layout_def length_le16 length_le32 length_ascii)
  show "drop 44 bs = pcm"
    by (simp add: bs_def wav_layout_def length_le16 length_le32 length_ascii)
  show "getUint32 4 bs = (length pcm + 36) mod 4294967296"
    unfolding bs_def wav_layout_def by (rule getUint32_le32) (simp add: length_ascii)
  show "getUint32 28 bs = (sr * nc * 2) mod 4294967296"
    using getUint32_le32 [of "ascii ''RIFF'' @ le32 (length pcm + 36) @ ascii ''WAVE''
            @ ascii ''fmt '' @ le32 16 @ le16 1 @ le16 nc @ le32 sr" 28 "sr * nc * 2"
            "le16 (nc * 2) @ le16 16 @ ascii ''data'' @ le32 (length pcm) @ pcm"]
    by (simp add: bs_def wav_layout_def length_le16 length_le32 length_ascii)
  show "getUint16 32 bs = (nc * 2) mod 65536"
    using getUint16_le16 [of "ascii ''RIFF'' @ le32 (length pcm + 36) @ ascii ''WAVE''
            @ ascii ''fmt '' @ le32 16 @ le16 1 @ le16 nc @ le32 sr @ le32 (sr * nc * 2)" 32
            "nc * 2" "le16 16 @ ascii ''data'' @ le32 (length pcm) @ pcm"]
    by (simp add: bs_def wav_layout_def length_le16 length_le32 length_ascii)
  show "getUint32 40 bs = length pcm mod 4294967296"
    using getUint32_le32 [of "ascii ''RIFF'' @ le32 (length pcm + 36) @ ascii ''WAVE''
            @ ascii ''fmt '' @ le32 16 @ le16 1 @ le16 nc @ le32 sr @ le32 (sr * nc * 2)
            @ le16 (nc * 2) @ le16 16 @ ascii ''data''" 40 "length pcm" pcm]
    by (simp add: bs_def wav_layout_def length_le16 length_le32 length_ascii)
qed

text \<open>
  C8 (WAV header exactness). For every payload, sample rate and channel count the writer
  returns a blob of type \<open>audio/wav\<close> that is 44 header bytes followed by the payload:
  bytes 0-3 spell \<open>RIFF\<close>, bytes 36-39 spell \<open>data\<close>, and the RIFF size, byte rate,
  block align and data length fields hold total length minus 8, rate times channels times 2,
  channels times 2 and the payload length (each as far as its 32 or 16 bits reach). For a
  2-byte payload at 24000 Hz and 1 channel the output has exactly 46 bytes, the declared data
  length is 2, the RIFF size is 46 - 8, the byte rate 24000 * 1 * 2 and the block align 1 * 2.
\<close>

theorem convertPcmToWavBlob_header_exact:
  "(\<exists>bs. convertPcmToWavBlob pcmBytes sampleRate numChannels
             = Inr \<lparr>blob_bytes = bs, blob_type = str ''audio/wav''\<rparr>
      \<and> length bs = 44 + length pcmBytes
      \<and> take 4 bs = ascii ''RIFF''
      \<and> take 4 (drop 36 bs) = ascii ''data''
      \<and> drop 44 bs = pcmBytes
      \<and> getUint32 4 bs = (length bs - 8) mod 2 ^ 32
      \<and> getUint32 28 bs = (sampleRate * numChannels * 2) mod 2 ^ 32
      \<and> getUint16 32 bs = (numChannels * 2) mod 2 ^ 16
      \<and> getUint32 40 bs = length pcmBytes mod 2 ^ 32)
   \<and> (\<exists>bs. convertPcmToWavBlob [b0, b1] 24000 1
             = Inr \<lparr>blob_bytes = bs, blob_type = str ''audio/wav''\<rparr>
      \<and> length bs = 46
      \<and> take 4 bs = ascii ''RIFF''
      \<and> take 4 (drop 36 bs) = ascii ''data''
      \<and> drop 44 bs = [b0, b1]
      \<and> getUint32 40 bs = 2
      \<and> getUint32 4 bs = 46 - 8
      \<and> getUint32 28 bs = 24000 * 1 * 2
      \<and> getUint16 32 bs = 1 * 2)"
proof -
  have size: "44 + length pcmBytes - 8 = length pcmBytes + 36"
    by simp
  have general: "\<exists>bs. convertPcmToWavBlob pcmBytes sampleRate numChannels
             = Inr \<lparr>blob_bytes = bs, blob_type = str ''audio/wav''\<rparr>
      \<and> length bs = 44 + length pcmBytes
      \<and> take 4 bs = ascii ''RIFF''
      \<and> take 4 (drop 36 bs) = ascii ''data''
      \<and> drop 44 bs = pcmBytes
      \<and> getUint32 4 bs = (length bs - 8) mod 2 ^ 32
      \<and> getUint32 28 bs = (sampleRate * numChannels * 2) mod 2 ^ 32
      \<and> getUint16 32 bs = (numChannels * 2) mod 2 ^ 16
      \<and> getUint32 40 bs = length pcmBytes mod 2 ^ 32"
    by (rule exI [of _ "wav_layout pcmBytes sampleRate numChannels"])
       (simp only: convertPcmToWavBlob_bytes wav_layout_fields size, simp)
  have example: "\<exists>bs. convertPcmToWavBlob [b0, b1] 24000 1
             = Inr \<lparr>blob_bytes = bs, blob_type = str ''audio/wav''\<rparr>
      \<and> length bs = 46
      \<and> take 4 bs = ascii ''RIFF''
      \<and> take 4 (drop 36 bs) = ascii ''data''
      \<and> drop 44 bs = [b0, b1]
      \<and> getUint32 40 bs = 2
      \<and> getUint32 4 bs = 46 - 8
      \<and> getUint32 28 bs = 24000 * 1 * 2
      \<and> getUint16 32 bs = 1 * 2"
    by (rule exI [of _ "wav_layout [b0, b1] 24000 1"])
       (simp only: convertPcmToWavBlob_bytes wav_layout_fields, simp)
  from general example show ?thesis
    by (rule conjI)
qed

section \<open>Properties of the structured analysis\<close>

text \<open>
  C9 (structured-analysis degradation), as the code has it. Whenever \<open>JSON.parse\<close> throws
  on the response text, or the response has no text, \<open>analyzeVideoTranscriptForInfo\<close> does
  not fail: it returns an object whose \<open>timeframes\<close> is the empty sequence and whose
  \<open>analysisText\<close> is the sentence \<open>Failed to parse structured analysis. Raw response: \<close>
  followed by the raw response text. A text that \<open>JSON.parse\<close> accepts is returned as
  parsed; it is not compared with the schema.
\<close>

theorem analysis_degrades_on_parse_failure:
  "analyzeVideoTranscriptForInfo (Inr (Some t)) (Inl e) = Inr (parse_fallback t)
   \<and> property ''timeframes'' (parse_fallback t) = Some (JArray [])
   \<and> property ''analysisText'' (parse_fallback t)
       = Some (JString (str ''Failed to parse structured analysis. Raw response: '' @ t))
   \<and> analyzeVideoTranscriptForInfo (Inr None) parsed = Inr (parse_fallback (str ''undefined''))
   \<and> analyzeVideoTranscriptForInfo (Inr (Some t)) (Inr v) = Inr v"
  by (simp add: analyzeVideoTranscriptForInfo_def parse_fallback_def property_def str_def)

text \<open>
  The claim as the specification words it fails twice. The text \<open>oops\<close> is not JSON: the
  returned \<open>analysisText\<close> is the prefixed sentence, not the raw text. The text \<open>42\<close> is
  JSON that does not match the schema: the number 42 is returned, which has neither
  \<open>timeframes\<close> nor \<open>analysisText\<close>.
\<close>

theorem analysis_degradation_counterexample:
  "analyzeVideoTranscriptForInfo (Inr (Some (str ''oops''))) (Inl SyntaxError)
     = Inr (parse_fallback (str ''oops''))
   \<and> property ''analysisText'' (parse_fallback (str ''oops''))
       = Some (JString (str ''Failed to parse structured analysis. Raw response: oops''))
   \<and> property ''analysisText'' (parse_fallback (str ''oops'')) \<noteq> Some (JString (str ''oops''))
   \<and> analyzeVideoTranscriptForInfo (Inr (Some (str ''42''))) (Inr (JNumber (Finite 42)))
     = Inr (JNumber (Finite 42))
   \<and> property ''timeframes'' (JNumber (Finite 42)) = None
   \<and> property ''analysisText'' (JNumber (Finite 42)) = None"
  by (simp add: analyzeVideoTranscriptForInfo_def parse_fallback_def property_def str_def)

section \<open>Properties of the session teardown\<close>

lemma stopRecording_released: "refs_released (stopRecording s)"
  by (simp add: stopRecording_def refs_released_def Let_def split: option.splits)

lemma stopRecording_flags: "\<not> isRecording (stopRecording s) \<and> \<not> isLoading (stopRecording s)"
  by (simp add: stopRecording_def Let_def split: option.splits)

lemma stopRecording_noop:
  "refs_released s \<Longrightarrow> \<not> isRecording s \<Longrightarrow> \<not> isLoading s \<Longrightarrow> stopRecording s = s"
  by (simp add: stopRecording_def refs_released_def Let_def)

lemma stopRecording_idem: "stopRecording (stopRecording s) = stopRecording s"
  by (rule stopRecording_noop) (simp_all add: stopRecording_released stopRecording_flags)

lemma stopRecording_scheduler:
  "ctx_inv s \<Longrightarrow> playbackSourcesRef (stopRecording s) = [] \<and> nextStartTimeRef (stopRecording s) = 0"
  by (auto simp add: stopRecording_def ctx_inv_def Let_def split: option.splits)

lemma stopRecording_effects: "effects (stopRecording s) = effects s @ release_calls s"
  by (simp add: stopRecording_def release_calls_def Let_def split: option.splits)

lemma ctx_inv_stopRecording: "ctx_inv s \<Longrightarrow> ctx_inv (stopRecording s)"
  by (simp add: ctx_inv_def stopRecording_scheduler)

lemma ctx_inv_startRecording: "ctx_inv s \<Longrightarrow> ctx_inv (startRecording env s)"
  by (auto simp add: ctx_inv_def startRecording_def start_failed_def clearCurrentTranscriptions_def
      Let_def split: sum.splits option.splits)

lemma ctx_inv_source_ended: "ctx_inv s \<Longrightarrow> ctx_inv (source_ended source s)"
  by (auto simp add: ctx_inv_def source_ended_def)

lemma ctx_inv_handle_audio: "ctx_inv s \<Longrightarrow> ctx_inv (handle_audio env a s)"
  by (auto simp add: ctx_inv_def handle_audio_def Let_def split: option.splits sum.splits)

lemma ctx_inv_handle_transcription: "ctx_inv s \<Longrightarrow> ctx_inv (handle_transcription m s)"
  by (auto simp add: ctx_inv_def handle_transcription_def split: option.splits)

lemma ctx_inv_handle_turn_complete: "ctx_inv s \<Longrightarrow> ctx_inv (handle_turn_complete cl env m s)"
  by (auto simp add: ctx_inv_def handle_turn_complete_def addChatMessage_def
      clearCurrentTranscriptions_def Let_def split: option.splits)

lemma fold_stop_and_delete:
  "fold stop_and_delete xs s =
     s\<lparr>effects := effects s @ map SourceStop xs,
       playbackSourcesRef := filter (\<lambda>y. y \<notin> set xs) (playbackSourcesRef s)\<rparr>"
proof (induction xs arbitrary: s)
  case Nil
  then show ?case by simp
next
  case (Cons x xs)
  have "filter (\<lambda>y. y \<notin> set xs) (removeAll x ys) = filter (\<lambda>y. y \<noteq> x \<and> y \<notin> set xs) ys"
    for ys :: "nat list"
    by (induction ys) auto
  with Cons show ?case
    by (simp add: stop_and_delete_def)
qed

lemma stop_all_sources:
  "fold stop_and_delete (playbackSourcesRef s) s =
     s\<lparr>effects := effects s @ map SourceStop (playbackSourcesRef s), playbackSourcesRef := []\<rparr>"
  by (simp add: fold_stop_and_delete)

lemma ctx_inv_handle_interrupted: "ctx_inv s \<Longrightarrow> ctx_inv (handle_interrupted m s)"
  by (auto simp add: ctx_inv_def handle_interrupted_def stop_all_sources
      clearCurrentTranscriptions_def split: option.splits)

lemma ctx_inv_handleLiveMessage:
  "ctx_inv s \<Longrightarrow> handleLiveMessage cl env m s = Inr s' \<Longrightarrow> ctx_inv s'"
  by (auto simp add: handleLiveMessage_def ctx_inv_handle_audio ctx_inv_handle_transcription
      ctx_inv_handle_turn_complete ctx_inv_handle_interrupted split: sum.splits)

lemma ctx_inv_error_shown: "ctx_inv (s\<lparr>error_shown := e\<rparr>) = ctx_inv s"
  by (simp add: ctx_inv_def)

lemma ctx_inv_step: "ctx_inv (chat c) \<Longrightarrow> ctx_inv (chat (step ev c))"
proof (cases ev)
  case (ServerMessage env m)
  assume "ctx_inv (chat c)"
  with ServerMessage show ?thesis
    by (auto simp add: ctx_inv_handleLiveMessage split: option.splits sum.splits)
next
  case (SessionClosed wasClean)
  assume "ctx_inv (chat c)"
  with SessionClosed show ?thesis
    by (auto simp add: ctx_inv_stopRecording ctx_inv_error_shown Let_def split: option.splits)
qed (auto simp add: ctx_inv_startRecording ctx_inv_stopRecording ctx_inv_source_ended
      ctx_inv_error_shown split: option.splits)

lemma ctx_inv_run: "ctx_inv (chat c) \<Longrightarrow> ctx_inv (chat (run events c))"
  unfolding run_def
  by (induction events arbitrary: c) (simp_all add: ctx_inv_step)

lemma ctx_inv_initial: "ctx_inv (chat initial_component)"
  by (simp add: ctx_inv_def initial_component_def initial_LiveChat_def)

text \<open>
  C7 (idempotent teardown). In every state the component reaches from its initial state,
  over any sequence of clicks, server messages, ended sources, session errors and closes,
  \<open>stopRecording\<close> (a total function: it has no failing path) leaves every ref \<open>null\<close>, the
  source set empty and the clock at zero, having made exactly the release calls for what
  the refs held; a second call right after changes nothing, and neither does a call in the
  initial state, where no session was ever started.
\<close>

theorem stopRecording_idempotent:
  "(let s0 = chat (run events initial_component); s = stopRecording s0 in
      mediaStreamRef s = None \<and> mediaStreamSourceRef s = None \<and> scriptProcessorRef s = None
      \<and> audioContextRef s = None \<and> outputAudioContextRef s = None \<and> liveSessionRef s = None
      \<and> playbackSourcesRef s = [] \<and> nextStartTimeRef s = 0
      \<and> effects s = effects s0 @ release_calls s0
      \<and> stopRecording s = s)
   \<and> stopRecording initial_LiveChat = initial_LiveChat"
proof -
  have inv: "ctx_inv (chat (run events initial_component))"
    by (rule ctx_inv_run) (rule ctx_inv_initial)
  have initial: "stopRecording initial_LiveChat = initial_LiveChat"
    by (rule stopRecording_noop) (simp_all add: refs_released_def initial_LiveChat_def)
  from inv initial show ?thesis
    using stopRecording_released [of "chat (run events initial_component)"]
    by (simp add: Let_def refs_released_def stopRecording_scheduler stopRecording_effects
        stopRecording_idem)
qed

section \<open>Properties of the message handler\<close>

subsection \<open>What each step leaves alone\<close>

lemma str_nonempty: "str (c # cs) \<noteq> []"
  by (simp add: str_def)

lemma handle_transcription_frame:
  "effects (handle_transcription m s) = effects s"
  "nextStartTimeRef (handle_transcription m s) = nextStartTimeRef s"
  "playbackSourcesRef (handle_transcription m s) = playbackSourcesRef s"
  "sourcesCreated (handle_transcription m s) = sourcesCreated s"
  "chatMessages (handle_transcription m s) = chatMessages s"
  "outputAudioContextRef (handle_transcription m s) = outputAudioContextRef s"
  "liveSessionRef (handle_transcription m s) = liveSessionRef s"
  by (simp_all add: handle_transcription_def split: option.splits)

lemma handle_turn_complete_frame:
  "effects (handle_turn_complete cl env m s) = effects s"
  "nextStartTimeRef (handle_turn_complete cl env m s) = nextStartTimeRef s"
  "playbackSourcesRef (handle_turn_complete cl env m s) = playbackSourcesRef s"
  "sourcesCreated (handle_turn_complete cl env m s) = sourcesCreated s"
  "outputAudioContextRef (handle_turn_complete cl env m s) = outputAudioContextRef s"
  "liveSessionRef (handle_turn_complete cl env m s) = liveSessionRef s"
  by (simp_all add: handle_turn_complete_def addChatMessage_def clearCurrentTranscriptions_def
      Let_def split: option.splits)

lemma handle_audio_frame:
  "chatMessages (handle_audio env a s) = chatMessages s"
  "currentInputTranscription (handle_audio env a s) = currentInputTranscription s"
  "currentOutputTranscription (handle_audio env a s) = currentOutputTranscription s"
  "outputAudioContextRef (handle_audio env a s) = outputAudioContextRef s"
  "liveSessionRef (handle_audio env a s) = liveSessionRef s"
  by (simp_all add: handle_audio_def Let_def split: option.splits sum.splits)

lemma handle_interrupted_skip: "\<not> is_interrupted m \<Longrightarrow> handle_interrupted m s = s"
  by (simp add: handle_interrupted_def is_interrupted_def split: option.splits)

lemma handle_turn_complete_skip: "\<not> is_turn_complete m \<Longrightarrow> handle_turn_complete cl env m s = s"
  by (simp add: handle_turn_complete_def is_turn_complete_def split: option.splits)

lemma handle_interrupted_stops:
  "is_interrupted m \<Longrightarrow>
   handle_interrupted m s =
     s\<lparr>effects := effects s @ map SourceStop (playbackSourcesRef s), playbackSourcesRef := [],
       nextStartTimeRef := 0, currentInputTranscription := [], currentOutputTranscription := []\<rparr>"
  by (simp add: handle_interrupted_def is_interrupted_def stop_all_sources
      clearCurrentTranscriptions_def split: option.splits)

lemma handle_audio_enqueue:
  "outputAudioContextRef s \<noteq> None \<Longrightarrow> decode_segment b = Inr buf \<Longrightarrow> b \<noteq> [] \<Longrightarrow>
   handle_audio env (Some b) s =
     s\<lparr>sourcesCreated := Suc (sourcesCreated s),
       effects := effects s @ [SourceStart (sourcesCreated s) (max (nextStartTimeRef s) (currentTime env))],
       nextStartTimeRef := max (nextStartTimeRef s) (currentTime env) + duration buf,
       playbackSourcesRef := set_add (sourcesCreated s) (playbackSourcesRef s)\<rparr>"
  by (simp add: handle_audio_def Let_def)

lemma decode_segment_nonempty: "decode_segment b = Inr buf \<Longrightarrow> b \<noteq> []"
  by (auto simp add: decode_segment_def decode_def atob_def strip_padding_def decodeAudioData_def
      Int16Array_of_buffer_def createBuffer_def AUDIO_NUM_CHANNELS_def split: sum.splits if_splits)


lemma enqueue_step:
  assumes "outputAudioContextRef s \<noteq> None"
    and "message_audio m = Inr (Some b)"
    and "decode_segment b = Inr buf"
    and "\<not> is_interrupted m"
  shows "\<exists>s'. handleLiveMessage cl env m s = Inr s'
           \<and> effects s' = effects s
                 @ [SourceStart (sourcesCreated s) (max (nextStartTimeRef s) (currentTime env))]
           \<and> nextStartTimeRef s' = max (nextStartTimeRef s) (currentTime env) + duration buf
           \<and> playbackSourcesRef s' = set_add (sourcesCreated s) (playbackSourcesRef s)
           \<and> sourcesCreated s' = Suc (sourcesCreated s)
           \<and> outputAudioContextRef s' = outputAudioContextRef s"
proof -
  from assms(3) have "b \<noteq> []"
    by (rule decode_segment_nonempty)
  with assms show ?thesis
    by (simp add: handleLiveMessage_def handle_interrupted_skip handle_turn_complete_frame
        handle_transcription_frame handle_audio_enqueue)
qed

subsection \<open>The example states\<close>

lemma decode_one_frame: "decode_segment (str ''AAA='') = Inr one_frame"
  by (simp add: decode_segment_def decode_def atob_def str_def ascii_whitespace_def strip_padding_def
    b64_index_def decodeAudioData_def Int16Array_of_buffer_def createBuffer_def sample_at_def store_at_def
    OUTPUT_AUDIO_SAMPLE_RATE_def AUDIO_NUM_CHANNELS_def one_frame_def)

lemma recording_state:
  "recording = initial_LiveChat\<lparr>isRecording := True, audioContextRef := Some 2,
     outputAudioContextRef := Some 3, scriptProcessorRef := Some 5, mediaStreamSourceRef := Some 4,
     liveSessionRef := Some 6, mediaStreamRef := Some 1\<rparr>"
  by (simp add: recording_def granted_def initial_component_def initial_LiveChat_def
      startRecording_def clearCurrentTranscriptions_def Let_def)

lemma audio_message_audio: "message_audio (audio_message b) = Inr (Some b)"
  by (simp add: message_audio_def audio_message_def)

lemma audio_message_flags:
  "\<not> is_interrupted (audio_message b)" "\<not> is_turn_complete (audio_message b)"
  by (simp_all add: is_interrupted_def is_turn_complete_def audio_message_def)

lemma playing_reached:
  "run [ClickStart granted, ServerMessage (at_time 5) (audio_message (str ''AAA='')),
        ServerMessage (at_time 5) (input_delta (str ''hel''))] initial_component
   = \<lparr>chat = playing, callbacks = Some \<lparr>onmessage = \<lparr>captured_input = [], captured_output = []\<rparr>,
        onclose_isRecording = False\<rparr>\<rparr>"
  by (simp add: run_def playing_def recording_def granted_def initial_component_def
      initial_LiveChat_def startRecording_def clearCurrentTranscriptions_def session_requested_def
      handleLiveMessage_def audio_message_audio handle_audio_def decode_one_frame one_frame_def
      duration_def set_add_def at_time_def handle_transcription_def handle_turn_complete_def
      handle_interrupted_def audio_message_def input_delta_def message_audio_def delta_text_def
      str_nonempty Let_def)

subsection \<open>Scheduling\<close>

text \<open>
  C2 (gapless scheduling). Three audio messages are handled one after the other while the
  output context is held; each carries a segment that decodes, and the second and the third
  arrive no later than their predecessor finishes (output time at most the predecessor's
  start plus its duration). Then the first segment starts at the maximum of
  \<open>nextStartTime\<close> and the output time and the clock advances by its duration; the second
  starts at the first start plus \<open>d1\<close> and the third at the first start plus \<open>d1 + d2\<close>,
  whatever the output times of the arrivals are.
\<close>

theorem gapless_scheduling:
  fixes s0 :: LiveChat and env1 :: handler_env
  defines "start1 \<equiv> max (nextStartTimeRef s0) (currentTime env1)"
  assumes ctx: "outputAudioContextRef s0 \<noteq> None"
    and m1: "message_audio m1 = Inr (Some b1)" "decode_segment b1 = Inr buf1" "\<not> is_interrupted m1"
    and m2: "message_audio m2 = Inr (Some b2)" "decode_segment b2 = Inr buf2" "\<not> is_interrupted m2"
    and m3: "message_audio m3 = Inr (Some b3)" "decode_segment b3 = Inr buf3" "\<not> is_interrupted m3"
    and t2: "currentTime env2 \<le> start1 + duration buf1"
    and t3: "currentTime env3 \<le> start1 + duration buf1 + duration buf2"
  shows "\<exists>s1 s2 s3.
           handleLiveMessage cl1 env1 m1 s0 = Inr s1
         \<and> handleLiveMessage cl2 env2 m2 s1 = Inr s2
         \<and> handleLiveMessage cl3 env3 m3 s2 = Inr s3
         \<and> effects s1 = effects s0 @ [SourceStart (sourcesCreated s0) start1]
         \<and> nextStartTimeRef s1 = start1 + duration buf1
         \<and> effects s2 = effects s1 @ [SourceStart (sourcesCreated s0 + 1) (start1 + duration buf1)]
         \<and> nextStartTimeRef s2 = start1 + duration buf1 + duration buf2
         \<and> effects s3 = effects s2
               @ [SourceStart (sourcesCreated s0 + 2) (start1 + duration buf1 + duration buf2)]
         \<and> nextStartTimeRef s3 = start1 + duration buf1 + duration buf2 + duration buf3"
proof -
  obtain s1 where s1: "handleLiveMessage cl1 env1 m1 s0 = Inr s1"
      "effects s1 = effects s0 @ [SourceStart (sourcesCreated s0) start1]"
      "nextStartTimeRef s1 = start1 + duration buf1"
      "sourcesCreated s1 = Suc (sourcesCreated s0)"
      "outputAudioContextRef s1 \<noteq> None"
    using enqueue_step [OF ctx m1, of cl1 env1] ctx by (auto simp add: start1_def)
  have d1: "0 \<le> duration buf1" and d2: "0 \<le> duration buf2"
    by (simp_all add: duration_def)
  obtain s2 where s2: "handleLiveMessage cl2 env2 m2 s1 = Inr s2"
      "effects s2 = effects s1 @ [SourceStart (sourcesCreated s0 + 1) (start1 + duration buf1)]"
      "nextStartTimeRef s2 = start1 + duration buf1 + duration buf2"
      "sourcesCreated s2 = Suc (Suc (sourcesCreated s0))"
      "outputAudioContextRef s2 \<noteq> None"
    using enqueue_step [OF s1(5) m2, of cl2 env2] s1 t2 by (auto simp add: max_def)
  obtain s3 where s3: "handleLiveMessage cl3 env3 m3 s2 = Inr s3"
      "effects s3 = effects s2
         @ [SourceStart (sourcesCreated s0 + 2) (start1 + duration buf1 + duration buf2)]"
      "nextStartTimeRef s3 = start1 + duration buf1 + duration buf2 + duration buf3"
    using enqueue_step [OF s2(5) m3, of cl3 env3] s2 t3 by (auto simp add: max_def)
  from s1 s2 s3 show ?thesis
    by blast
qed


theorem gapless_scheduling_witness:
  "\<exists>s1 s2 s3.
       handleLiveMessage first_callback (at_time 5) (audio_message (str ''AAA='')) recording = Inr s1
     \<and> handleLiveMessage first_callback (at_time (5 + 1 / 48000)) (audio_message (str ''AAA='')) s1 = Inr s2
     \<and> handleLiveMessage first_callback (at_time (5 + 1 / 24000)) (audio_message (str ''AAA='')) s2 = Inr s3
     \<and> effects s3 = [SourceStart 0 5, SourceStart 1 (5 + 1 / 24000), SourceStart 2 (5 + 2 / 24000)]
     \<and> nextStartTimeRef s3 = 5 + 3 / 24000"
  using gapless_scheduling [where ?s0.0 = recording and ?env1.0 = "at_time 5"
      and ?env2.0 = "at_time (5 + 1 / 48000)" and ?env3.0 = "at_time (5 + 1 / 24000)"
      and ?m1.0 = "audio_message (str ''AAA='')" and ?m2.0 = "audio_message (str ''AAA='')"
      and ?m3.0 = "audio_message (str ''AAA='')" and ?b1.0 = "str ''AAA=''" and ?b2.0 = "str ''AAA=''"
      and ?b3.0 = "str ''AAA=''" and ?buf1.0 = one_frame and ?buf2.0 = one_frame
      and ?buf3.0 = one_frame and ?cl1.0 = first_callback and ?cl2.0 = first_callback
      and ?cl3.0 = first_callback]
  by (auto simp add: decode_one_frame audio_message_audio audio_message_flags recording_state
      initial_LiveChat_def at_time_def duration_def one_frame_def)


subsection \<open>Interruption\<close>

text \<open>
  C3 (interruption). A message with \<open>interrupted\<close> set and \<open>turnComplete\<close> not set
  empties the source set, having stopped every source that was in it, resets the clock to
  zero and clears both transcription buffers; the message log is unchanged. The next audio
  message, handled at output time \<open>t \<ge> 0\<close>, is scheduled at \<open>t\<close>.
\<close>

theorem interrupted_resets_playback:
  assumes audio: "message_audio m = Inr a"
    and int: "is_interrupted m"
    and tc: "\<not> is_turn_complete m"
    and now: "0 \<le> currentTime env2"
    and next_audio: "message_audio m2 = Inr (Some b)" "decode_segment b = Inr buf"
      "\<not> is_interrupted m2"
    and ctx: "outputAudioContextRef s \<noteq> None"
  shows "\<exists>s'. handleLiveMessage cl env m s = Inr s'
           \<and> playbackSourcesRef s' = []
           \<and> SourceStop ` set (playbackSourcesRef s) \<subseteq> set (effects s')
           \<and> nextStartTimeRef s' = 0
           \<and> currentInputTranscription s' = []
           \<and> currentOutputTranscription s' = []
           \<and> chatMessages s' = chatMessages s
           \<and> (\<exists>s''. handleLiveMessage cl2 env2 m2 s' = Inr s''
                 \<and> effects s'' = effects s' @ [SourceStart (sourcesCreated s') (currentTime env2)]
                 \<and> nextStartTimeRef s'' = currentTime env2 + duration buf)"
proof -
  define s1 where "s1 = handle_transcription m (handle_audio env a s)"
  define s' where "s' = handle_interrupted m s1"
  have run: "handleLiveMessage cl env m s = Inr s'"
    using audio tc by (simp add: handleLiveMessage_def s'_def s1_def handle_turn_complete_skip)
  have s': "s' = s1\<lparr>effects := effects s1 @ map SourceStop (playbackSourcesRef s1),
      playbackSourcesRef := [], nextStartTimeRef := 0, currentInputTranscription := [],
      currentOutputTranscription := []\<rparr>"
    unfolding s'_def using int by (rule handle_interrupted_stops)
  have kept: "set (playbackSourcesRef s) \<subseteq> set (playbackSourcesRef s1)"
    by (auto simp add: s1_def handle_transcription_frame handle_audio_def set_add_def Let_def
        split: option.splits sum.splits)
  have chat: "chatMessages s1 = chatMessages s"
    by (simp add: s1_def handle_transcription_frame handle_audio_frame)
  have ctx': "outputAudioContextRef s' \<noteq> None"
    using ctx by (simp add: s' s1_def handle_transcription_frame handle_audio_frame)
  have clock: "max (nextStartTimeRef s') (currentTime env2) = currentTime env2"
    using now by (simp add: s')
  have next_enqueue: "\<exists>s''. handleLiveMessage cl2 env2 m2 s' = Inr s''
       \<and> effects s'' = effects s' @ [SourceStart (sourcesCreated s') (currentTime env2)]
       \<and> nextStartTimeRef s'' = currentTime env2 + duration buf"
    using enqueue_step [OF ctx' next_audio, of cl2 env2] by (auto simp add: clock)
  show ?thesis
  proof (rule exI [of _ s'], intro conjI)
    show "handleLiveMessage cl env m s = Inr s'"
      by (rule run)
    show "SourceStop ` set (playbackSourcesRef s) \<subseteq> set (effects s')"
      using kept by (auto simp add: s')
    show "\<exists>s''. handleLiveMessage cl2 env2 m2 s' = Inr s''
       \<and> effects s'' = effects s' @ [SourceStart (sourcesCreated s') (currentTime env2)]
       \<and> nextStartTimeRef s'' = currentTime env2 + duration buf"
      by (rule next_enqueue)
  qed (simp_all add: s' chat)
qed

lemma interrupted_message_facts:
  "message_audio interrupted_message = Inr None"
  "is_interrupted interrupted_message"
  "\<not> is_turn_complete interrupted_message"
  by (simp_all add: interrupted_message_def message_audio_def is_interrupted_def
      is_turn_complete_def)

theorem interrupted_resets_playback_witness:
  "\<exists>s'. handleLiveMessage first_callback (at_time 6) interrupted_message playing = Inr s'
      \<and> playbackSourcesRef s' = []
      \<and> SourceStop 0 \<in> set (effects s')
      \<and> nextStartTimeRef s' = 0
      \<and> currentInputTranscription s' = []
      \<and> currentOutputTranscription s' = []
      \<and> chatMessages s' = []
      \<and> (\<exists>s''. handleLiveMessage first_callback (at_time 7) (audio_message (str ''AAA='')) s' = Inr s''
            \<and> effects s'' = effects s' @ [SourceStart (sourcesCreated s') 7])"
  using interrupted_resets_playback [where m = interrupted_message and a = None and s = playing
      and ?env2.0 = "at_time 7" and ?m2.0 = "audio_message (str ''AAA='')" and b = "str ''AAA=''"
      and buf = one_frame and cl = first_callback and env = "at_time 6"
      and ?cl2.0 = first_callback]
  by (auto simp add: decode_one_frame audio_message_audio audio_message_flags recording_state
      initial_LiveChat_def at_time_def playing_def interrupted_message_facts)

subsection \<open>Turn completion\<close>




lemma trim_hello: "trim (str ''hello'') \<noteq> []" "trim (str ''hi there'') \<noteq> []"
  by (simp_all add: trim_def js_whitespace_def str_def)

lemma trim_blank: "trim (str '' '') = []" "str '' '' \<noteq> []" "trim [] = []"
  by (simp_all add: trim_def js_whitespace_def str_def)





text \<open>
  C10 (white-space guard) and the captured values. The callback that a session calls is the
  one of the render in which the start button was clicked; what it compares and finalizes at
  a turn-complete message are the buffer values of that render, not the buffers. A first
  session receives the user's words \<open>hello\<close> and is stopped; a second session is started
  and receives one space. At the turn-complete message that follows, the input buffer is a
  single space and the output buffer is empty, and a USER message \<open>hello\<close> is created.
\<close>

theorem stale_closure_finalizes_old_text:
  "(let before = run [ClickStart granted,
                      ServerMessage (at_time 0) (input_delta (str ''hello'')),
                      ClickStop,
                      ClickStart granted,
                      ServerMessage (at_time 0) (input_delta (str '' ''))] initial_component;
        after = step (ServerMessage (at_time 0) turn_complete_message) before
    in currentInputTranscription (chat before) = str '' ''
       \<and> currentOutputTranscription (chat before) = []
       \<and> chatMessages (chat before) = []
       \<and> chatMessages (chat after) = [\<lparr>role = USER, content = str ''hello'', timestamp = 0\<rparr>])"
  by (simp add: run_def granted_def initial_component_def initial_LiveChat_def startRecording_def
      stopRecording_def clearCurrentTranscriptions_def session_requested_def handleLiveMessage_def
      handle_audio_def handle_transcription_def handle_turn_complete_def handle_interrupted_def
      input_delta_def turn_complete_message_def message_audio_def delta_text_def addChatMessage_def
      at_time_def trim_hello trim_blank Let_def)

text \<open>
  The same callback in a first session holds two empty texts: the turn \<open>hello\<close>,
  \<open>hi there\<close> is completed and no message is created.
\<close>

lemma first_turn_is_never_finalized:
  "chatMessages (chat (run [ClickStart granted,
                            ServerMessage (at_time 0) (input_delta (str ''hello'')),
                            ServerMessage (at_time 0) (output_delta (str ''hi there'')),
                            ServerMessage (at_time 0) turn_complete_message] initial_component)) = []"
  by (simp add: run_def granted_def initial_component_def initial_LiveChat_def startRecording_def
      clearCurrentTranscriptions_def session_requested_def handleLiveMessage_def
      handle_audio_def handle_transcription_def handle_turn_complete_def handle_interrupted_def
      input_delta_def output_delta_def turn_complete_message_def message_audio_def delta_text_def
      addChatMessage_def at_time_def trim_def Let_def)

section \<open>Properties of \<open>btoa\<close> and \<open>atob\<close>\<close>

lemma unat_code_unit: "n < 65536 \<Longrightarrow> unat (of_nat n :: code_unit) = n"
  by (simp add: unat_of_nat)

lemma unat_b64_char:
  assumes "i < 64"
  shows "unat (b64_char i) =
     (if i < 26 then 65 + i else if i < 52 then 71 + i else if i < 62 then i - 4
      else if i = 62 then 43 else 47)"
proof -
  have "(if i < 26 then 65 + i else if i < 52 then 71 + i else if i < 62 then i - 4
         else if i = 62 then 43 else 47) < (65536::nat)"
    using assms by auto
  then show ?thesis
    unfolding b64_char_def by (rule unat_code_unit)
qed

lemma b64_index_char: "i < 64 \<Longrightarrow> b64_index (b64_char i) = Some i"
  by (auto simp add: b64_index_def Let_def unat_b64_char)

lemma b64_char_not_whitespace: "i < 64 \<Longrightarrow> \<not> ascii_whitespace (b64_char i)"
  by (auto simp add: ascii_whitespace_def unat_b64_char)

lemma b64_char_not_pad: "i < 64 \<Longrightarrow> b64_char i \<noteq> 61"
proof
  assume "i < 64" and "b64_char i = 61"
  then have "unat (b64_char i) = 61"
    by simp
  with \<open>i < 64\<close> show False
    by (auto simp add: unat_b64_char split: if_splits)
qed

lemma pad_not_whitespace: "\<not> ascii_whitespace 61"
  by (simp add: ascii_whitespace_def)

lemma b64_encode_shape:
  "b64_encode bs = map b64_char (b64_sextets bs) @ replicate (b64_padding bs) 61"
  by (induction bs rule: b64_encode.induct) (simp_all add: numeral_2_eq_2)

lemma sextet_bounds:
  fixes a :: nat
  assumes "a < 256"
  shows "a div 4 < 64" "a mod 4 * 16 \<le> 48" "a div 16 < 16" "a mod 16 * 4 \<le> 60" "a div 64 < 4"
    "a mod 64 < 64"
  using assms by arith+

lemma b64_sextets_bound: "\<forall>b \<in> set bs. b < 256 \<Longrightarrow> \<forall>i \<in> set (b64_sextets bs). i < 64"
proof (induction bs rule: b64_sextets.induct)
  case (4 a b c bs)
  then have rest: "\<forall>i \<in> set (b64_sextets bs). i < 64"
    by simp
  from 4 have "a < 256" "b < 256" "c < 256"
    by simp_all
  then show ?case
    using rest sextet_bounds [of a] sextet_bounds [of b] sextet_bounds [of c] by simp
next
  case (3 a b)
  then have "a < 256" "b < 256"
    by simp_all
  then show ?case
    using sextet_bounds [of a] sextet_bounds [of b] by simp
next
  case (2 a)
  then have "a < 256"
    by simp
  then show ?case
    using sextet_bounds [of a] by simp
qed simp

lemma b64_padding_le: "b64_padding bs \<le> 2"
  by (induction bs rule: b64_padding.induct) simp_all

lemma b64_length: "(length (b64_sextets bs) + b64_padding bs) mod 4 = 0"
  by (induction bs rule: b64_sextets.induct) simp_all

lemma b64_sextets_length: "length (b64_sextets bs) mod 4 \<noteq> 1"
  by (induction bs rule: b64_sextets.induct) simp_all

lemma b64_decode_sextets: "\<forall>b \<in> set bs. b < 256 \<Longrightarrow> b64_decode (b64_sextets bs) = bs"
proof (induction bs rule: b64_sextets.induct)
  case (2 a)
  then have "a < 256" by simp
  then show ?case by simp
next
  case (3 a b)
  then have "a < 256" "b < 256" by simp_all
  then have "(a mod 4 * 16 + b div 16) div 16 = a mod 4"
    and "(a mod 4 * 16 + b div 16) mod 16 = b div 16"
    and "b mod 16 * 4 div 4 = b mod 16"
    by simp_all
  then show ?case by simp
next
  case (4 a b c bs)
  then have "a < 256" "b < 256" "c < 256" and rest: "b64_decode (b64_sextets bs) = bs"
    by simp_all
  then have "(a mod 4 * 16 + b div 16) div 16 = a mod 4"
    and "(a mod 4 * 16 + b div 16) mod 16 = b div 16"
    and "(b mod 16 * 4 + c div 64) div 4 = b mod 16"
    and "(b mod 16 * 4 + c div 64) mod 4 = c div 64"
    by simp_all
  with rest show ?case by simp
qed simp

lemma strip_padding_encoded:
  assumes body: "\<forall>c \<in> set body. c \<noteq> 61"
    and k: "k \<le> 2"
    and len: "(length body + k) mod 4 = 0"
  shows "strip_padding (body @ replicate k 61) = body"
proof -
  have last_body: "body \<noteq> [] \<Longrightarrow> last body \<noteq> 61"
    using body last_in_set by blast
  from k consider "k = 0" | "k = 1" | "k = 2"
    by linarith
  then show ?thesis
  proof cases
    case 1
    with last_body show ?thesis
      by (auto simp add: strip_padding_def)
  next
    case 2
    with last_body len show ?thesis
      by (auto simp add: strip_padding_def)
  next
    case 3
    then have "replicate k (61 :: code_unit) = [61, 61]"
      by (simp add: numeral_2_eq_2)
    with len 3 show ?thesis
      by (simp add: strip_padding_def butlast_append)
  qed
qed

lemma atob_b64_encode:
  assumes "\<forall>b \<in> set bs. b < 256"
  shows "atob (b64_encode bs) = Inr (map of_nat bs)"
proof -
  let ?body = "map b64_char (b64_sextets bs)"
  have sx: "\<forall>i \<in> set (b64_sextets bs). i < 64"
    using assms by (rule b64_sextets_bound)
  have keep: "filter (\<lambda>c. \<not> ascii_whitespace c) (b64_encode bs) = b64_encode bs"
    using sx by (auto simp add: b64_encode_shape filter_id_conv b64_char_not_whitespace
        pad_not_whitespace)
  have no_pad: "\<forall>c \<in> set ?body. c \<noteq> 61"
    using sx by (auto simp add: b64_char_not_pad)
  have strip: "strip_padding (b64_encode bs) = ?body"
    unfolding b64_encode_shape
    using no_pad b64_padding_le [of bs] b64_length [of bs]
    by (intro strip_padding_encoded) simp_all
  have len: "length ?body mod 4 \<noteq> 1"
    using b64_sextets_length [of bs] by simp
  have known: "\<not> list_ex (\<lambda>c. b64_index c = None) ?body"
    using sx by (auto simp add: list_ex_iff b64_index_char)
  have undo: "map ((\<lambda>c. the (b64_index c)) \<circ> b64_char) (b64_sextets bs) = b64_sextets bs"
    using sx by (simp add: map_idI b64_index_char)
  show ?thesis
    using len known
    by (simp add: atob_def keep strip undo b64_decode_sextets [OF assms])
qed

lemma unat_byte_bound_aux: "unat (b :: byte) < 65536"
  using unsigned_less [of b, where ?'a = nat] by simp

lemma btoa_total: "\<forall>c \<in> set s. unat c \<le> 255 \<Longrightarrow> btoa s = Inr (b64_encode (map unat s))"
  by (auto simp add: btoa_def list_ex_iff)

lemma byte_code_unit: "unat (ucast (b :: byte) :: code_unit) = unat b"
  by (simp add: unsigned_ucast_eq take_bit_nat_eq_self_iff unat_byte_bound_aux)

lemma code_unit_byte: "(ucast (ucast (b :: byte) :: code_unit) :: byte) = b"
  by (rule ucast_up_ucast_id) (simp add: is_up)

lemma unat_byte_le: "unat (b :: byte) \<le> 255"
  using unsigned_less [of b, where ?'a = nat] by simp

lemma encode_total: "encode bytes = Inr (b64_encode (map unat bytes))"
proof -
  have "btoa (map (\<lambda>b. of_nat (unat b)) bytes)
          = Inr (b64_encode (map unat (map (\<lambda>b. of_nat (unat b) :: code_unit) bytes)))"
    by (rule btoa_total) (simp add: byte_code_unit unat_byte_le)
  then show ?thesis
    by (simp add: encode_def comp_def byte_code_unit)
qed

lemma unat_byte_bound: "unat (b :: byte) < 256"
  using unsigned_less [of b, where ?'a = nat] by simp

lemma decode_encode: "\<exists>e. encode bytes = Inr e \<and> decode e = Inr bytes"
proof -
  have "atob (b64_encode (map unat bytes)) = Inr (map of_nat (map unat bytes))"
    by (rule atob_b64_encode) (simp add: unat_byte_bound)
  then have "decode (b64_encode (map unat bytes)) = Inr bytes"
    by (simp add: decode_def comp_def code_unit_byte map_idI)
  then show ?thesis
    by (simp add: encode_total)
qed

section \<open>Properties of the audio framing codec\<close>

lemma int16_join: "(of_nat (unat (of_nat (unat w) :: byte) + 256 * unat (of_nat (unat w div 256) :: byte)) :: 16 word) = w"
proof -
  have w: "unat w < 65536"
    using unsigned_less [of w, where ?'a = nat] by simp
  then have hi: "unat w div 256 < 256"
    by simp
  have "unat (of_nat (unat w) :: byte) + 256 * unat (of_nat (unat w div 256) :: byte)
          = unat w mod 256 + 256 * (unat w div 256 mod 256)"
    by (simp only: unat_of_nat) simp
  also have "\<dots> = unat w"
    using hi by simp
  finally have "(of_nat (unat (of_nat (unat w) :: byte) + 256 * unat (of_nat (unat w div 256) :: byte)) :: 16 word)
      = of_nat (unat w)"
    by (rule arg_cong)
  then show ?thesis
    by (simp only: of_nat_unat ucast_id)
qed

lemma int16_elements_bytes: "int16_elements (Uint8Array_of_Int16Array ws) = ws"
  unfolding Uint8Array_of_Int16Array_def
proof (induction ws)
  case Nil
  then show ?case by simp
next
  case (Cons w ws)
  have "int16_elements (int16_bytes w @ concat (map int16_bytes ws))
          = of_nat (unat (of_nat (unat w) :: byte) + 256 * unat (of_nat (unat w div 256) :: byte))
            # int16_elements (concat (map int16_bytes ws))"
    by (simp only: int16_bytes_def append_Cons append_Nil int16_elements.simps)
  with Cons show ?case
    by (simp only: int16_join list.map concat.simps)
qed

lemma length_bytes: "length (Uint8Array_of_Int16Array ws) = 2 * length ws"
  unfolding Uint8Array_of_Int16Array_def
  by (induction ws) (simp_all add: int16_bytes_def)

lemma Int16Array_roundtrip: "Int16Array_of_buffer (Uint8Array_of_Int16Array ws) = Inr ws"
  by (simp add: Int16Array_of_buffer_def length_bytes int16_elements_bytes)

lemma length_int16_elements: "length (int16_elements bs) = length bs div 2"
  by (induction bs rule: int16_elements.induct) simp_all

lemma channel_fill:
  "k \<le> length cd \<Longrightarrow>
   fold (\<lambda>i c. store_at c i (f i)) [0..<k] cd = map f [0..<k] @ drop k cd"
proof (induction k)
  case 0
  then show ?case by simp
next
  case (Suc k)
  then have "k < length cd"
    by simp
  then have "(map f [0..<k] @ drop k cd)[k := f k] = map f [0..<k] @ f k # drop (Suc k) cd"
    by (simp add: list_update_append upd_conv_take_nth_drop drop_Suc flip: Cons_nth_drop_Suc)
  with Suc \<open>k < length cd\<close> show ?case
    by (simp add: store_at_def)
qed

lemma decodeAudioData_mono:
  "decodeAudioData bytes rate 1 =
     (if odd (length bytes) then Inl RangeError
      else if length bytes div 2 = 0 \<or> rate < 8000 \<or> 96000 < rate then Inl NotSupportedError
      else Inr \<lparr>numberOfChannels = 1, buffer_length = length bytes div 2, buffer_sampleRate = rate,
                channelData = [map (\<lambda>w. Finite (real_of_int (sint w) / 32768)) (int16_elements bytes)]\<rparr>)"
proof -
  let ?d = "int16_elements bytes"
  have fill: "fold (\<lambda>i c. store_at c i (sample_at ?d i)) [0..<length ?d] (replicate (length ?d) (Finite 0))
        = map (sample_at ?d) [0..<length ?d]"
    by (simp add: channel_fill)
  have samples: "map (sample_at ?d) [0..<length ?d] = map (\<lambda>w. Finite (real_of_int (sint w) / 32768)) ?d"
    by (rule nth_equalityI) (simp_all add: sample_at_def)
  note filled = trans [OF fill samples, unfolded length_int16_elements]
  show ?thesis
    by (simp add: decodeAudioData_def Int16Array_of_buffer_def createBuffer_def filled
        length_int16_elements)
qed

lemma decode_b64_encode: "decode (b64_encode (map unat bytes)) = Inr bytes"
  using decode_encode [of bytes] by (simp add: encode_total)

lemma truncate_error: "\<bar>real_of_int (js_truncate y) - y\<bar> < 1"
  unfolding js_truncate_def by (simp split: if_splits) linarith

lemma truncate_range:
  assumes "- 1 \<le> x" "x < 1"
  shows "- 32768 \<le> js_truncate (x * 32768) \<and> js_truncate (x * 32768) < 32768"
proof -
  have "- 32768 \<le> x * 32768" "x * 32768 < 32768"
    using assms by simp_all
  then show ?thesis
    unfolding js_truncate_def by (simp split: if_splits add: le_ceiling_iff floor_less_iff le_floor_iff ceiling_less_iff) 
qed

lemma sint_word16: "sint (word_of_int t :: 16 word) = (t + 32768) mod 65536 - 32768"
  by (simp add: sint_sbintrunc' signed_take_bit_eq_take_bit_shift take_bit_eq_mod)

lemma sint_word16_in_range:
  "- 32768 \<le> t \<Longrightarrow> t < 32768 \<Longrightarrow> sint (word_of_int t :: 16 word) = t"
  by (simp add: sint_sbintrunc' signed_take_bit_int_eq_self)

lemma mime_type: "str ''audio/pcm;rate='' @ decimal INPUT_AUDIO_SAMPLE_RATE = str ''audio/pcm;rate=16000''"
  by (simp add: INPUT_AUDIO_SAMPLE_RATE_def decimal.simps str_def)

lemma createBlob_value:
  "createBlob samples =
     Inr \<lparr>blob_data = b64_encode (map unat (Uint8Array_of_Int16Array
                         (map (\<lambda>x. ToInt16 (times_32768 x)) samples))),
          mimeType = str ''audio/pcm;rate=16000''\<rparr>"
  by (simp add: createBlob_def encode_total mime_type)

lemma truncate_toward_zero: "real_of_int (js_truncate y) = sgn y * real_of_int \<lfloor>\<bar>y\<bar>\<rfloor>"
  by (simp add: js_truncate_def ceiling_def sgn_if)

text \<open>
  C6 (quantization of \<open>createBlob\<close>), as the code has it. For every sequence of samples
  \<open>createBlob\<close> returns (it has no failing path) a blob tagged \<open>audio/pcm;rate=16000\<close>
  whose data is the base64 text of the bytes of the 16-bit integers, low byte first:
  \<open>decode\<close> gives those bytes back. A finite sample \<open>x\<close> becomes \<open>x * 32768\<close> truncated
  towards zero (not rounded: the error is below 1 and the magnitude never grows) and wrapped
  into the signed 16-bit range; NaN and the infinities become 0.
\<close>

theorem createBlob_quantizes:
  "createBlob samples =
     Inr \<lparr>blob_data = b64_encode (map unat (Uint8Array_of_Int16Array
                         (map (\<lambda>x. ToInt16 (times_32768 x)) samples))),
          mimeType = str ''audio/pcm;rate=16000''\<rparr>
   \<and> decode (b64_encode (map unat (Uint8Array_of_Int16Array
                         (map (\<lambda>x. ToInt16 (times_32768 x)) samples))))
       = Inr (Uint8Array_of_Int16Array (map (\<lambda>x. ToInt16 (times_32768 x)) samples))
   \<and> Uint8Array_of_Int16Array (w # ws)
       = of_nat (unat w mod 256) # of_nat (unat w div 256) # Uint8Array_of_Int16Array ws
   \<and> sint (ToInt16 (times_32768 (Finite x))) = (js_truncate (x * 32768) + 32768) mod 65536 - 32768
   \<and> \<bar>real_of_int (js_truncate (x * 32768)) - x * 32768\<bar> < 1
   \<and> real_of_int (js_truncate (x * 32768)) = sgn (x * 32768) * real_of_int \<lfloor>\<bar>x * 32768\<bar>\<rfloor>
   \<and> ToInt16 (times_32768 NaN) = 0
   \<and> ToInt16 (times_32768 PosInfinity) = 0
   \<and> ToInt16 (times_32768 NegInfinity) = 0"
proof -
  have bytes: "Uint8Array_of_Int16Array (w # ws)
       = of_nat (unat w mod 256) # of_nat (unat w div 256) # Uint8Array_of_Int16Array ws"
  proof -
    have "(of_nat (unat w mod 256) :: byte) = of_nat (unat w)"
      by (simp add: word_eq_iff_unsigned [where ?'a = nat] unat_of_nat unsigned_ucast_eq take_bit_eq_mod)
    then show ?thesis
      by (simp add: Uint8Array_of_Int16Array_def int16_bytes_def)
  qed
  have quantized: "sint (ToInt16 (times_32768 (Finite x)))
      = (js_truncate (x * 32768) + 32768) mod 65536 - 32768"
    by (simp only: ToInt16.simps times_32768.simps sint_word16)
  have non_finite: "ToInt16 (times_32768 NaN) = 0 \<and> ToInt16 (times_32768 PosInfinity) = 0
      \<and> ToInt16 (times_32768 NegInfinity) = 0"
    by (simp only: ToInt16.simps times_32768.simps simp_thms)
  from createBlob_value [of samples]
    decode_b64_encode [of "Uint8Array_of_Int16Array (map (\<lambda>x. ToInt16 (times_32768 x)) samples)"]
    bytes quantized truncate_error [of "x * 32768"] truncate_toward_zero [of "x * 32768"] non_finite
  show ?thesis
    by (intro conjI) (erule conjunct1 conjunct2 | assumption | elim conjE)+
qed

text \<open>
  The claim as the specification words it (\<open>round(sample * 32768)\<close>) fails for the sample
  \<open>3 / 131072\<close>, a single-precision value: the product is \<open>0.75\<close>, which rounds to 1, and
  the stored integer is 0 (bytes 0, 0, the text \<open>AAA=\<close>).
\<close>

theorem createBlob_round_counterexample:
  "sint (ToInt16 (times_32768 (Finite (3 / 131072)))) = 0
   \<and> round (3 / 131072 * 32768 :: real) = 1
   \<and> createBlob [Finite (3 / 131072)] =
       Inr \<lparr>blob_data = str ''AAA='', mimeType = str ''audio/pcm;rate=16000''\<rparr>"
  by (simp add: createBlob_value js_truncate_def round_def Uint8Array_of_Int16Array_def
      int16_bytes_def b64_char_def str_def)

lemma signed_word16_in_range:
  assumes "- 32768 \<le> t" "t < 32768"
  shows "(signed (word_of_int t :: 16 word) :: real) = real_of_int t"
  using sint_word16_in_range [OF assms] by (metis of_int_sint)

text \<open>
  C1 (round trip), as the code has it. For every non-empty sequence of samples in the
  half-open range from -1 up to but not including 1, and a sample rate that \<open>createBuffer\<close>
  supports (from 8000 to 96000, as the 24000 of the component), decoding with one channel
  the bytes that \<open>decode\<close> reads from the data of \<open>createBlob\<close> gives a buffer of as many
  frames as there were samples, and every decoded sample differs from the original by at
  most \<open>1 / 32768\<close>.
\<close>

theorem codec_roundtrip:
  assumes nonempty: "xs \<noteq> []"
    and range: "\<forall>x \<in> set xs. - 1 \<le> x \<and> x < 1"
    and rate: "8000 \<le> rate" "rate \<le> 96000"
  shows "\<exists>blob bytes ys.
           createBlob (map Finite xs) = Inr blob
         \<and> decode (blob_data blob) = Inr bytes
         \<and> decodeAudioData bytes rate 1 =
             Inr \<lparr>numberOfChannels = 1, buffer_length = length xs, buffer_sampleRate = rate,
                  channelData = [map Finite ys]\<rparr>
         \<and> length ys = length xs
         \<and> (\<forall>i < length xs. \<bar>ys ! i - xs ! i\<bar> \<le> 1 / 32768)"
proof -
  define ws where "ws = map (\<lambda>x. ToInt16 (times_32768 x)) (map Finite xs)"
  define bytes where "bytes = Uint8Array_of_Int16Array ws"
  define ys where "ys = map (\<lambda>x. real_of_int (js_truncate (x * 32768)) / 32768) xs"
  have blob: "createBlob (map Finite xs) =
      Inr \<lparr>blob_data = b64_encode (map unat bytes), mimeType = str ''audio/pcm;rate=16000''\<rparr>"
    by (simp only: createBlob_value bytes_def ws_def)
  have len: "length bytes = 2 * length xs"
    by (simp add: bytes_def length_bytes ws_def)
  have elements: "int16_elements bytes = ws"
    by (simp add: bytes_def int16_elements_bytes)
  have samples: "map (\<lambda>w. Finite (real_of_int (sint w) / 32768)) ws = map Finite ys"
    unfolding ws_def ys_def using range
    by (simp add: signed_word16_in_range truncate_range)
  have decoded: "decodeAudioData bytes rate 1 =
             Inr \<lparr>numberOfChannels = 1, buffer_length = length xs, buffer_sampleRate = rate,
                  channelData = [map Finite ys]\<rparr>"
    by (simp only: decodeAudioData_mono len elements samples) (use nonempty rate in simp)
  have close: "\<bar>ys ! i - xs ! i\<bar> \<le> 1 / 32768" if "i < length xs" for i
  proof -
    have "\<bar>real_of_int (js_truncate (xs ! i * 32768)) - xs ! i * 32768\<bar> < 1"
      by (rule truncate_error)
    then have "\<bar>real_of_int (js_truncate (xs ! i * 32768)) / 32768 - xs ! i\<bar> < 1 / 32768"
      by (simp add: abs_less_iff field_simps)
    with that show ?thesis
      by (simp add: ys_def)
  qed
  show ?thesis
  proof (intro exI conjI)
    show "createBlob (map Finite xs) =
      Inr \<lparr>blob_data = b64_encode (map unat bytes), mimeType = str ''audio/pcm;rate=16000''\<rparr>"
      by (rule blob)
    show "decode (blob_data \<lparr>blob_data = b64_encode (map unat bytes),
                             mimeType = str ''audio/pcm;rate=16000''\<rparr>) = Inr bytes"
      by (simp add: decode_b64_encode)
    show "decodeAudioData bytes rate 1 =
             Inr \<lparr>numberOfChannels = 1, buffer_length = length xs, buffer_sampleRate = rate,
                  channelData = [map Finite ys]\<rparr>"
      by (rule decoded)
    show "length ys = length xs"
      by (simp add: ys_def)
    show "\<forall>i < length xs. \<bar>ys ! i - xs ! i\<bar> \<le> 1 / 32768"
      using close by simp
  qed
qed

theorem codec_roundtrip_witness:
  "\<exists>blob bytes ys.
       createBlob [Finite (1 / 2), Finite (- 1), Finite (3 / 131072)] = Inr blob
     \<and> decode (blob_data blob) = Inr bytes
     \<and> decodeAudioData bytes 24000 1 =
         Inr \<lparr>numberOfChannels = 1, buffer_length = 3, buffer_sampleRate = 24000,
              channelData = [map Finite ys]\<rparr>
     \<and> length ys = 3
     \<and> \<bar>ys ! 0 - 1 / 2\<bar> \<le> 1 / 32768
     \<and> \<bar>ys ! 1 - (- 1)\<bar> \<le> 1 / 32768
     \<and> \<bar>ys ! 2 - 3 / 131072\<bar> \<le> 1 / 32768"
proof -
  have "\<exists>blob bytes ys.
       createBlob (map Finite [1 / 2, - 1, 3 / 131072]) = Inr blob
     \<and> decode (blob_data blob) = Inr bytes
     \<and> decodeAudioData bytes 24000 1 =
         Inr \<lparr>numberOfChannels = 1, buffer_length = length [1 / 2, - 1, 3 / 131072 :: real],
              buffer_sampleRate = 24000, channelData = [map Finite ys]\<rparr>
     \<and> length ys = length [1 / 2, - 1, 3 / 131072 :: real]
     \<and> (\<forall>i < length [1 / 2, - 1, 3 / 131072 :: real].
           \<bar>ys ! i - [1 / 2, - 1, 3 / 131072] ! i\<bar> \<le> 1 / 32768)"
    by (rule codec_roundtrip) simp_all
  then obtain blob bytes ys where r:
    "createBlob (map Finite [1 / 2, - 1, 3 / 131072]) = Inr blob"
    "decode (blob_data blob) = Inr bytes"
    "decodeAudioData bytes 24000 1 =
         Inr \<lparr>numberOfChannels = 1, buffer_length = length [1 / 2, - 1, 3 / 131072 :: real],
              buffer_sampleRate = 24000, channelData = [map Finite ys]\<rparr>"
    "length ys = length [1 / 2, - 1, 3 / 131072 :: real]"
    "\<forall>i < length [1 / 2, - 1, 3 / 131072 :: real].
           \<bar>ys ! i - [1 / 2, - 1, 3 / 131072] ! i\<bar> \<le> 1 / 32768"
    by blast
  have "\<bar>ys ! 0 - 1 / 2\<bar> \<le> 1 / 32768" "\<bar>ys ! 1 - (- 1)\<bar> \<le> 1 / 32768"
    "\<bar>ys ! 2 - 3 / 131072\<bar> \<le> 1 / 32768"
    using r(5) [rule_format, of 0] r(5) [rule_format, of 1] r(5) [rule_format, of 2]
    by simp_all
  with r(1-4) show ?thesis
    by (intro exI [of _ blob] exI [of _ bytes] exI [of _ ys] conjI) simp_all
qed

text \<open>
  The claim as the specification words it fails for the sample 1, which lies in the closed
  range: \<open>1 * 32768\<close> wraps to \<open>-32768\<close> and decodes to -1. It also fails for the empty
  sequence, whose empty chunk \<open>createBuffer\<close> rejects.
\<close>

theorem codec_roundtrip_counterexample:
  "createBlob [Finite 1] = Inr \<lparr>blob_data = str ''AIA='', mimeType = str ''audio/pcm;rate=16000''\<rparr>
   \<and> decode (str ''AIA='') = Inr [0, 128]
   \<and> decodeAudioData [0, 128] 24000 1 =
       Inr \<lparr>numberOfChannels = 1, buffer_length = 1, buffer_sampleRate = 24000,
            channelData = [[Finite (- 1)]]\<rparr>
   \<and> \<not> \<bar>(- 1 :: real) - 1\<bar> \<le> 1 / 32768
   \<and> createBlob [] = Inr \<lparr>blob_data = [], mimeType = str ''audio/pcm;rate=16000''\<rparr>
   \<and> decode [] = Inr []
   \<and> decodeAudioData [] 24000 1 = Inl NotSupportedError"
proof -
  have a: "createBlob [Finite 1] = Inr \<lparr>blob_data = str ''AIA='', mimeType = str ''audio/pcm;rate=16000''\<rparr>"
    by (simp add: createBlob_value js_truncate_def Uint8Array_of_Int16Array_def
      int16_bytes_def b64_char_def str_def)
  have b: "decode (str ''AIA='') = Inr [0, 128]"
    by (simp add: decode_def atob_def str_def ascii_whitespace_def strip_padding_def b64_index_def)
  have c: "decodeAudioData [0, 128] 24000 1 =
       Inr \<lparr>numberOfChannels = 1, buffer_length = 1, buffer_sampleRate = 24000,
            channelData = [[Finite (- 1)]]\<rparr>"
    using decodeAudioData_mono [of "[0, 128]" 24000] by simp
  have d: "createBlob [] = Inr \<lparr>blob_data = [], mimeType = str ''audio/pcm;rate=16000''\<rparr>"
    by (simp add: createBlob_value Uint8Array_of_Int16Array_def)
  have e: "decode [] = Inr []"
    by (simp add: decode_def atob_def strip_padding_def)
  have f: "decodeAudioData [] 24000 1 = Inl NotSupportedError"
    using decodeAudioData_mono [of "[]" 24000] by simp
  from a b c d e f show ?thesis
    by simp
qed

section \<open>Properties of the handler on a chunk that does not decode\<close>

lemma session_handles_handle_audio: "session_handles (handle_audio env a s) = session_handles s"
  by (simp add: session_handles_def handle_audio_def Let_def split: option.splits sum.splits)

lemma session_handles_handle_transcription:
  "session_handles (handle_transcription m s) = session_handles s"
  by (simp add: session_handles_def handle_transcription_def split: option.splits)

lemma session_handles_handle_turn_complete:
  "session_handles (handle_turn_complete cl env m s) = session_handles s"
  by (simp add: session_handles_def handle_turn_complete_def addChatMessage_def
      clearCurrentTranscriptions_def Let_def split: option.splits)

lemma session_handles_handle_interrupted:
  "session_handles (handle_interrupted m s) = session_handles s"
  by (simp add: session_handles_def handle_interrupted_def stop_all_sources
      clearCurrentTranscriptions_def split: option.splits)

lemma handle_interrupted_created: "sourcesCreated (handle_interrupted m s) = sourcesCreated s"
  by (simp add: handle_interrupted_def stop_all_sources clearCurrentTranscriptions_def
      split: option.splits)

lemma handle_audio_failed:
  "outputAudioContextRef s \<noteq> None \<Longrightarrow> b \<noteq> [] \<Longrightarrow> decode_segment b = Inl e \<Longrightarrow>
   handle_audio env (Some b) s =
     s\<lparr>nextStartTimeRef := max (nextStartTimeRef s) (currentTime env),
       effects := effects s @ [ConsoleError]\<rparr>"
  by (simp add: handle_audio_def Let_def)

lemma decoder_fails_iff:
  "(\<exists>err. decodeAudioData bytes OUTPUT_AUDIO_SAMPLE_RATE AUDIO_NUM_CHANNELS = Inl err)
     \<longleftrightarrow> (\<not> (AUDIO_NUM_CHANNELS * 2) dvd length bytes \<or> bytes = [])"
proof -
  have "length bytes div 2 = 0 \<longleftrightarrow> bytes = []" if "even (length bytes)"
    using that by (cases bytes) auto
  then show ?thesis
    unfolding OUTPUT_AUDIO_SAMPLE_RATE_def AUDIO_NUM_CHANNELS_def decodeAudioData_mono
    by auto
qed

lemma decode_odd_chunk: "decode_segment (str ''AAAA'') = Inl RangeError"
  by (simp add: decode_segment_def decode_def atob_def str_def ascii_whitespace_def strip_padding_def
      b64_index_def decodeAudioData_def Int16Array_of_buffer_def)
lemma audio_message_rest:
  "handle_interrupted (audio_message b)
     (handle_turn_complete cl env (audio_message b) (handle_transcription (audio_message b) s)) = s"
  by (simp add: handle_interrupted_def handle_turn_complete_def handle_transcription_def
      audio_message_def)

lemma upt_two: "[0..<2] = [0, Suc 0]"
  by (simp add: upt_rec)

lemma replicate_two: "replicate 2 x = [x, x]"
  by (simp add: numeral_2_eq_2)

lemma fold_channels_fields:
  "numberOfChannels (fold (\<lambda>channel buf. buf\<lparr>channelData := F channel buf\<rparr>) cs b) = numberOfChannels b
   \<and> buffer_length (fold (\<lambda>channel buf. buf\<lparr>channelData := F channel buf\<rparr>) cs b) = buffer_length b
   \<and> buffer_sampleRate (fold (\<lambda>channel buf. buf\<lparr>channelData := F channel buf\<rparr>) cs b) = buffer_sampleRate b"
  by (induction cs arbitrary: b) simp_all

lemma frames_zero_iff: "0 < nc \<Longrightarrow> n div 2 div nc = 0 \<longleftrightarrow> n < nc * 2" for n nc :: nat
proof -
  have "n div 2 div nc = n div (2 * nc)"
    by (simp only: div_mult2_eq)
  moreover assume "0 < nc"
  ultimately show ?thesis
    by (simp add: div_eq_0_iff mult.commute)
qed

lemma decodeAudioData_channels:
  assumes "1 \<le> numChannels" "numChannels \<le> 32" "8000 \<le> rate" "rate \<le> 96000"
  shows "(decodeAudioData bytes rate numChannels = Inl RangeError \<longleftrightarrow> odd (length bytes))
       \<and> (decodeAudioData bytes rate numChannels = Inl NotSupportedError
            \<longleftrightarrow> even (length bytes) \<and> length bytes < numChannels * 2)
       \<and> ((\<exists>buf. decodeAudioData bytes rate numChannels = Inr buf
                 \<and> numberOfChannels buf = numChannels
                 \<and> buffer_length buf = length bytes div (numChannels * 2)
                 \<and> buffer_sampleRate buf = rate)
            \<longleftrightarrow> even (length bytes) \<and> numChannels * 2 \<le> length bytes)"
proof (cases "odd (length bytes)")
  case True
  then show ?thesis
    by (simp add: decodeAudioData_def Int16Array_of_buffer_def)
next
  case even: False
  show ?thesis
  proof (cases "length bytes < numChannels * 2")
    case True
    with even assms show ?thesis
      by (simp add: decodeAudioData_def Int16Array_of_buffer_def createBuffer_def
          length_int16_elements frames_zero_iff)
  next
    case False
    with assms have frames: "length bytes div 2 div numChannels \<noteq> 0"
      by (simp add: frames_zero_iff)
    have whole: "length bytes div 2 div numChannels = length bytes div (numChannels * 2)"
      by (simp only: div_mult2_eq mult.commute [of numChannels 2])
    from even False assms frames show ?thesis
      by (simp add: decodeAudioData_def Int16Array_of_buffer_def createBuffer_def
          length_int16_elements fold_channels_fields whole)
  qed
qed

text \<open>
  C5 (malformed chunk containment), as the code has it. The decoder has no check of its own
  and no \<open>MalformedAudioData\<close>, and it never compares the byte length with
  \<open>numChannels * 2\<close>. For 1 to 32 channels and a rate from 8000 to 96000 it fails with the
  \<open>RangeError\<close> of the \<open>Int16Array\<close> view exactly when the byte length of the chunk is odd,
  with the \<open>NotSupportedError\<close> of \<open>createBuffer\<close> exactly when the length is even and
  below \<open>numChannels * 2\<close> (no whole frame), and otherwise returns a buffer of
  \<open>numChannels\<close> channels with as many frames as \<open>numChannels * 2\<close> goes into the length,
  whether or not the length is a multiple of it. Called with one channel, as the handler
  calls it, it fails exactly when the length is not a multiple of \<open>numChannels * 2\<close> or the
  chunk is empty. When the audio of a message does not decode while the output context is
  held, the handler logs the error and goes on: the result is that of the same message
  without audio, on a state whose clock was raised to the output time; no source is created,
  the recording flag and the refs are unchanged, and a later message whose audio decodes is
  scheduled.
\<close>

theorem malformed_chunk_contained:
  assumes bad: "message_audio m = Inr (Some b)" "b \<noteq> []" "decode_segment b = Inl e"
    and ctx: "outputAudioContextRef s \<noteq> None"
    and valid: "message_audio m2 = Inr (Some b2)" "decode_segment b2 = Inr buf"
      "\<not> is_interrupted m2"
  shows "((\<exists>err. decodeAudioData bytes OUTPUT_AUDIO_SAMPLE_RATE AUDIO_NUM_CHANNELS = Inl err)
           \<longleftrightarrow> (\<not> (AUDIO_NUM_CHANNELS * 2) dvd length bytes \<or> bytes = []))
       \<and> (1 \<le> numChannels \<and> numChannels \<le> 32 \<and> 8000 \<le> rate \<and> rate \<le> 96000 \<longrightarrow>
            (decodeAudioData bytes rate numChannels = Inl RangeError \<longleftrightarrow> odd (length bytes))
          \<and> (decodeAudioData bytes rate numChannels = Inl NotSupportedError
               \<longleftrightarrow> even (length bytes) \<and> length bytes < numChannels * 2)
          \<and> ((\<exists>decoded. decodeAudioData bytes rate numChannels = Inr decoded
                    \<and> numberOfChannels decoded = numChannels
                    \<and> buffer_length decoded = length bytes div (numChannels * 2)
                    \<and> buffer_sampleRate decoded = rate)
               \<longleftrightarrow> even (length bytes) \<and> numChannels * 2 \<le> length bytes))
       \<and> (\<exists>s'. handleLiveMessage cl env m s = Inr s'
             \<and> s' = handle_interrupted m (handle_turn_complete cl env m (handle_transcription m
                      (s\<lparr>nextStartTimeRef := max (nextStartTimeRef s) (currentTime env),
                         effects := effects s @ [ConsoleError]\<rparr>)))
             \<and> sourcesCreated s' = sourcesCreated s
             \<and> session_handles s' = session_handles s
             \<and> (\<exists>s''. handleLiveMessage cl2 env2 m2 s' = Inr s''
                   \<and> effects s'' = effects s'
                        @ [SourceStart (sourcesCreated s') (max (nextStartTimeRef s') (currentTime env2))]
                   \<and> playbackSourcesRef s'' = set_add (sourcesCreated s') (playbackSourcesRef s')))"
proof -
  define s0 where "s0 = s\<lparr>nextStartTimeRef := max (nextStartTimeRef s) (currentTime env),
                         effects := effects s @ [ConsoleError]\<rparr>"
  define s' where "s' = handle_interrupted m (handle_turn_complete cl env m (handle_transcription m s0))"
  have audio: "handle_audio env (Some b) s = s0"
    unfolding s0_def using ctx bad(2,3) by (rule handle_audio_failed)
  have run: "handleLiveMessage cl env m s = Inr s'"
    by (simp add: handleLiveMessage_def bad(1) audio s'_def)
  have created: "sourcesCreated s' = sourcesCreated s"
    by (simp add: s'_def handle_interrupted_created handle_turn_complete_frame
        handle_transcription_frame s0_def)
  have handles: "session_handles s' = session_handles s"
    by (simp add: s'_def session_handles_handle_interrupted session_handles_handle_turn_complete
        session_handles_handle_transcription)
       (simp add: s0_def session_handles_def)
  from handles ctx have ctx': "outputAudioContextRef s' \<noteq> None"
    by (simp add: session_handles_def)
  have later: "\<exists>s''. handleLiveMessage cl2 env2 m2 s' = Inr s''
       \<and> effects s'' = effects s'
            @ [SourceStart (sourcesCreated s') (max (nextStartTimeRef s') (currentTime env2))]
       \<and> playbackSourcesRef s'' = set_add (sourcesCreated s') (playbackSourcesRef s')"
    using enqueue_step [OF ctx' valid, of cl2 env2] by blast
  show ?thesis
  proof (intro conjI)
    show "(\<exists>err. decodeAudioData bytes OUTPUT_AUDIO_SAMPLE_RATE AUDIO_NUM_CHANNELS = Inl err)
           \<longleftrightarrow> (\<not> (AUDIO_NUM_CHANNELS * 2) dvd length bytes \<or> bytes = [])"
      by (rule decoder_fails_iff)
    show "1 \<le> numChannels \<and> numChannels \<le> 32 \<and> 8000 \<le> rate \<and> rate \<le> 96000 \<longrightarrow>
            (decodeAudioData bytes rate numChannels = Inl RangeError \<longleftrightarrow> odd (length bytes))
          \<and> (decodeAudioData bytes rate numChannels = Inl NotSupportedError
               \<longleftrightarrow> even (length bytes) \<and> length bytes < numChannels * 2)
          \<and> ((\<exists>decoded. decodeAudioData bytes rate numChannels = Inr decoded
                    \<and> numberOfChannels decoded = numChannels
                    \<and> buffer_length decoded = length bytes div (numChannels * 2)
                    \<and> buffer_sampleRate decoded = rate)
               \<longleftrightarrow> even (length bytes) \<and> numChannels * 2 \<le> length bytes)"
      using decodeAudioData_channels [of numChannels rate bytes] by blast
    show "\<exists>s'. handleLiveMessage cl env m s = Inr s'
             \<and> s' = handle_interrupted m (handle_turn_complete cl env m (handle_transcription m
                      (s\<lparr>nextStartTimeRef := max (nextStartTimeRef s) (currentTime env),
                         effects := effects s @ [ConsoleError]\<rparr>)))
             \<and> sourcesCreated s' = sourcesCreated s
             \<and> session_handles s' = session_handles s
             \<and> (\<exists>s''. handleLiveMessage cl2 env2 m2 s' = Inr s''
                   \<and> effects s'' = effects s'
                        @ [SourceStart (sourcesCreated s') (max (nextStartTimeRef s') (currentTime env2))]
                   \<and> playbackSourcesRef s'' = set_add (sourcesCreated s') (playbackSourcesRef s'))"
    proof (rule exI [of _ s'], intro conjI)
      show "handleLiveMessage cl env m s = Inr s'"
        by (rule run)
      show "s' = handle_interrupted m (handle_turn_complete cl env m (handle_transcription m
                      (s\<lparr>nextStartTimeRef := max (nextStartTimeRef s) (currentTime env),
                         effects := effects s @ [ConsoleError]\<rparr>)))"
        by (simp only: s'_def s0_def)
      show "sourcesCreated s' = sourcesCreated s"
        by (rule created)
      show "session_handles s' = session_handles s"
        by (rule handles)
      show "\<exists>s''. handleLiveMessage cl2 env2 m2 s' = Inr s''
                   \<and> effects s'' = effects s'
                        @ [SourceStart (sourcesCreated s') (max (nextStartTimeRef s') (currentTime env2))]
                   \<and> playbackSourcesRef s'' = set_add (sourcesCreated s') (playbackSourcesRef s')"
        by (rule later)
    qed
  qed
qed

theorem malformed_chunk_contained_witness:
  "(\<exists>s'. handleLiveMessage first_callback (at_time 5) (audio_message (str ''AAAA'')) recording = Inr s'
      \<and> effects s' = [ConsoleError]
      \<and> playbackSourcesRef s' = []
      \<and> sourcesCreated s' = 0
      \<and> session_handles s' = session_handles recording
      \<and> (\<exists>s''. handleLiveMessage first_callback (at_time 6) (audio_message (str ''AAA='')) s' = Inr s''
            \<and> effects s'' = [ConsoleError, SourceStart 0 6]
            \<and> playbackSourcesRef s'' = [0]))
   \<and> (\<exists>decoded. decodeAudioData [1, 0, 2, 0, 3, 0] 24000 2 = Inr decoded
          \<and> numberOfChannels decoded = 2 \<and> buffer_length decoded = 1
          \<and> buffer_sampleRate decoded = 24000)
   \<and> decodeAudioData [1, 0, 2, 0, 3, 0] 24000 2 \<noteq> Inl RangeError
   \<and> decodeAudioData [1, 0, 2, 0, 3, 0] 24000 2 \<noteq> Inl NotSupportedError
   \<and> (\<forall>err. decodeAudioData [1, 0, 2, 0, 3, 0] OUTPUT_AUDIO_SAMPLE_RATE AUDIO_NUM_CHANNELS \<noteq> Inl err)"
proof -
  have six: "length [1, 0, 2, 0, 3, 0 :: byte] = 6"
    by simp
  have frames: "(6 :: nat) div (2 * 2) = 1" "even (6 :: nat)" "(2 :: nat) * 2 \<le> 6" "\<not> (6 :: nat) < 2 * 2"
    by simp_all
  note t = malformed_chunk_contained [where m = "audio_message (str ''AAAA'')" and b = "str ''AAAA''"
      and e = RangeError and s = recording and ?m2.0 = "audio_message (str ''AAA='')"
      and ?b2.0 = "str ''AAA=''" and buf = one_frame and cl = first_callback and env = "at_time 5"
      and ?cl2.0 = first_callback and ?env2.0 = "at_time 6" and bytes = "[1, 0, 2, 0, 3, 0]"
      and numChannels = 2 and rate = 24000, unfolded six]
  have t': "((\<exists>err. decodeAudioData [1, 0, 2, 0, 3, 0] OUTPUT_AUDIO_SAMPLE_RATE AUDIO_NUM_CHANNELS = Inl err)
           \<longleftrightarrow> (\<not> (AUDIO_NUM_CHANNELS * 2) dvd (6 :: nat) \<or> [1, 0, 2, 0, 3, 0 :: byte] = []))
       \<and> ((1 :: nat) \<le> 2 \<and> (2 :: nat) \<le> 32 \<and> (8000 :: nat) \<le> 24000 \<and> (24000 :: nat) \<le> 96000 \<longrightarrow>
            (decodeAudioData [1, 0, 2, 0, 3, 0] 24000 2 = Inl RangeError \<longleftrightarrow> odd (6 :: nat))
          \<and> (decodeAudioData [1, 0, 2, 0, 3, 0] 24000 2 = Inl NotSupportedError
               \<longleftrightarrow> even (6 :: nat) \<and> (6 :: nat) < 2 * 2)
          \<and> ((\<exists>decoded. decodeAudioData [1, 0, 2, 0, 3, 0] 24000 2 = Inr decoded
                    \<and> numberOfChannels decoded = 2
                    \<and> buffer_length decoded = 6 div (2 * 2)
                    \<and> buffer_sampleRate decoded = 24000)
               \<longleftrightarrow> even (6 :: nat) \<and> (2 :: nat) * 2 \<le> 6))
       \<and> (\<exists>s'. handleLiveMessage first_callback (at_time 5) (audio_message (str ''AAAA'')) recording = Inr s'
             \<and> s' = handle_interrupted (audio_message (str ''AAAA'')) (handle_turn_complete first_callback (at_time 5) (audio_message (str ''AAAA'')) (handle_transcription (audio_message (str ''AAAA''))
                      (recording\<lparr>nextStartTimeRef := max (nextStartTimeRef recording) (currentTime (at_time 5)),
                         effects := effects recording @ [ConsoleError]\<rparr>)))
             \<and> sourcesCreated s' = sourcesCreated recording
             \<and> session_handles s' = session_handles recording
             \<and> (\<exists>s''. handleLiveMessage first_callback (at_time 6) (audio_message (str ''AAA='')) s' = Inr s''
                   \<and> effects s'' = effects s'
                        @ [SourceStart (sourcesCreated s') (max (nextStartTimeRef s') (currentTime (at_time 6)))]
                   \<and> playbackSourcesRef s'' = set_add (sourcesCreated s') (playbackSourcesRef s')))"
    by (rule t) (simp_all add: audio_message_audio audio_message_flags decode_odd_chunk
        decode_one_frame str_nonempty recording_state initial_LiveChat_def)
  from t' have general: "\<exists>decoded. decodeAudioData [1, 0, 2, 0, 3, 0] 24000 2 = Inr decoded
          \<and> numberOfChannels decoded = 2 \<and> buffer_length decoded = 1
          \<and> buffer_sampleRate decoded = 24000"
     and no_range: "decodeAudioData [1, 0, 2, 0, 3, 0] 24000 2 \<noteq> Inl RangeError"
     and no_support: "decodeAudioData [1, 0, 2, 0, 3, 0] 24000 2 \<noteq> Inl NotSupportedError"
    unfolding frames by simp_all
  from t' have mono: "\<forall>err. decodeAudioData [1, 0, 2, 0, 3, 0] OUTPUT_AUDIO_SAMPLE_RATE AUDIO_NUM_CHANNELS \<noteq> Inl err"
    by (simp add: AUDIO_NUM_CHANNELS_def)
  from t' have handler: "\<exists>s'. handleLiveMessage first_callback (at_time 5) (audio_message (str ''AAAA'')) recording = Inr s'
      \<and> effects s' = [ConsoleError]
      \<and> playbackSourcesRef s' = []
      \<and> sourcesCreated s' = 0
      \<and> session_handles s' = session_handles recording
      \<and> (\<exists>s''. handleLiveMessage first_callback (at_time 6) (audio_message (str ''AAA='')) s' = Inr s''
            \<and> effects s'' = [ConsoleError, SourceStart 0 6]
            \<and> playbackSourcesRef s'' = [0])"
    by (auto simp add: recording_state initial_LiveChat_def at_time_def audio_message_rest
      set_add_def session_handles_def)
  from handler general no_range no_support mono show ?thesis
    by (intro conjI)
qed

text \<open>
  The claim as the specification words it fails for two channels: a chunk of 6 bytes is not a
  multiple of \<open>2 * 2\<close> and is decoded to one frame per channel. It also fails for the empty
  chunk, a multiple of every size, which is rejected; and the error of an odd length is a
  \<open>RangeError\<close>.
\<close>

theorem malformed_chunk_counterexample:
  "decodeAudioData [1, 0, 2, 0, 3, 0] 24000 2 =
     Inr \<lparr>numberOfChannels = 2, buffer_length = 1, buffer_sampleRate = 24000,
          channelData = [[Finite (1 / 32768)], [Finite (1 / 16384)]]\<rparr>
   \<and> \<not> (2 * 2) dvd length [1, 0, 2, 0, 3, 0 :: byte]
   \<and> decodeAudioData [] OUTPUT_AUDIO_SAMPLE_RATE AUDIO_NUM_CHANNELS = Inl NotSupportedError
   \<and> (AUDIO_NUM_CHANNELS * 2) dvd length ([] :: byte list)
   \<and> decodeAudioData [1] OUTPUT_AUDIO_SAMPLE_RATE AUDIO_NUM_CHANNELS = Inl RangeError"
proof -
  have view: "Int16Array_of_buffer [1, 0, 2, 0, 3, 0] = Inr [1, 2, 3]"
    by (simp add: Int16Array_of_buffer_def)
  have two_channels: "decodeAudioData [1, 0, 2, 0, 3, 0] 24000 2 =
     Inr \<lparr>numberOfChannels = 2, buffer_length = 1, buffer_sampleRate = 24000,
          channelData = [[Finite (1 / 32768)], [Finite (1 / 16384)]]\<rparr>"
    unfolding decodeAudioData_def view
    by (simp add: createBuffer_def sample_at_def store_at_def upt_two replicate_two)
  have empty: "decodeAudioData [] OUTPUT_AUDIO_SAMPLE_RATE AUDIO_NUM_CHANNELS = Inl NotSupportedError"
    by (simp add: decodeAudioData_def Int16Array_of_buffer_def createBuffer_def)
  have odd: "decodeAudioData [1] OUTPUT_AUDIO_SAMPLE_RATE AUDIO_NUM_CHANNELS = Inl RangeError"
    by (simp add: decodeAudioData_def Int16Array_of_buffer_def)
  have six: "length [1, 0, 2, 0, 3, 0 :: byte] = 6"
    by simp
  have not_multiple: "\<not> (2 * 2) dvd length [1, 0, 2, 0, 3, 0 :: byte]"
    unfolding six by simp
  have multiple: "(AUDIO_NUM_CHANNELS * 2) dvd length ([] :: byte list)"
    by simp
  from two_channels not_multiple empty multiple odd show ?thesis
    by (intro conjI)
qed

end
